theory Spec2Isabelle
  imports Complex_Main "HOL-Library.Sublist"
begin

section \<open>Conventions\<close>

text \<open>
  The development embeds the TypeScript sources of Paths-LE.

  \<^item> A JavaScript string is a sequence of UTF-16 code units; it is modelled as a
    \<^typ>\<open>string\<close>, one \<^typ>\<open>char\<close> per code unit (the model covers the code units
    below 256), so that \<^term>\<open>length s\<close> is the source's \<open>s.length\<close>.
  \<^item> A JavaScript number is a finite number, one of the two infinities or \<open>NaN\<close>. A
    finite number is modelled as a \<^typ>\<open>real\<close>: comparison and \<open>Math.max\<close> are exact
    on the numbers of the language, and the rounding of a decimal literal to the nearest
    of them is left out. Lengths and counts are natural numbers.
  \<^item> \<open>Date.now()\<close>, the localisation function of \<open>vscode-nls\<close>, the modal dialog
    of the editor and the imported functions whose module is not part of the
    sources at hand are parameters of the functions that call them.
  \<^item> An \<open>async\<close> function that awaits nothing but pure computations is modelled by
    the value its promise resolves to.
\<close>

section \<open>Post-processing: deduplication (\<open>deduplicateLines\<close>)\<close>

text \<open>
  The loop of \<open>deduplicateLines\<close>: \<open>seen\<close> is the \<open>Set\<close>, \<open>deduped\<close> the output array,
  to which \<open>push\<close> appends.
\<close>

fun deduplicateLoop :: "string list \<Rightarrow> string set \<Rightarrow> string list \<Rightarrow> string list" where
  "deduplicateLoop [] seen deduped = deduped"
| "deduplicateLoop (line # rest) seen deduped =
     (if line = '''' \<or> line \<in> seen then deduplicateLoop rest seen deduped
      else deduplicateLoop rest (insert line seen) (deduped @ [line]))"

definition deduplicateLines :: "string list \<Rightarrow> string list" where
  "deduplicateLines lines = deduplicateLoop lines {} []"

text \<open>
  The specification's wording, as a definition of its own: the lines at the positions
  that hold a non-empty line which occurs at no earlier position, in input order.
\<close>

definition firstOccurrences :: "string list \<Rightarrow> string list" where
  "firstOccurrences lines =
     map (\<lambda>i. lines ! i)
       (filter (\<lambda>i. lines ! i \<noteq> '''' \<and> lines ! i \<notin> set (take i lines)) [0..<length lines])"

text \<open>The same loop without the output accumulator, for the proofs.\<close>

fun firstsFrom :: "string set \<Rightarrow> string list \<Rightarrow> string list" where
  "firstsFrom seen [] = []"
| "firstsFrom seen (x # xs) =
     (if x = '''' \<or> x \<in> seen then firstsFrom seen xs else x # firstsFrom (insert x seen) xs)"

section \<open>Extraction (\<open>extraction/extract.ts\<close>)\<close>

datatype FileType = csv | toml | dotenv | javascript | typescript | json | css | html | unknown

record Path =
  path_value :: string
  path_line :: "nat option"
  path_column :: "nat option"

text \<open>
  The fields of a \<open>ParseError\<close> are kept as the strings the object literal of
  \<open>buildUnsupportedFormatResult\<close> holds at run time; the declaration of the type is in
  a module that is not among the sources.
\<close>

record ErrorMetadata =
  md_languageId :: string
  md_supportedFormats :: "string list"

record ParseError =
  pe_category :: string
  pe_severity :: string
  pe_message :: string
  pe_context :: "string option"
  pe_recoverable :: bool
  pe_recoveryAction :: string
  pe_timestamp :: int
  pe_metadata :: "ErrorMetadata option"

record ExtractionResult =
  er_success :: bool
  er_paths :: "Path list"
  er_errors :: "ParseError list"

text \<open>
  The seven format extractors are imported from \<open>./formats/*\<close>; they are parameters.
\<close>

record Extractors =
  extractFromCsv :: "string \<Rightarrow> Path list"
  extractFromToml :: "string \<Rightarrow> Path list"
  extractFromDotenv :: "string \<Rightarrow> Path list"
  extractFromJavaScript :: "string \<Rightarrow> Path list"
  extractFromJson :: "string \<Rightarrow> Path list"
  extractFromCss :: "string \<Rightarrow> Path list"
  extractFromHtml :: "string \<Rightarrow> Path list"

definition determineFileType :: "string \<Rightarrow> FileType" where
  "determineFileType languageId =
     (if languageId = ''csv'' then csv
      else if languageId = ''toml'' then toml
      else if languageId = ''dotenv'' \<or> languageId = ''env'' then dotenv
      else if languageId = ''javascript'' \<or> languageId = ''javascriptreact'' then javascript
      else if languageId = ''typescript'' \<or> languageId = ''typescriptreact'' then typescript
      else if languageId = ''json'' \<or> languageId = ''jsonc'' then json
      else if languageId = ''html'' then html
      else if languageId = ''css'' \<or> languageId = ''scss'' \<or> languageId = ''less'' then css
      else unknown)"

fun extractPathsByFileType :: "Extractors \<Rightarrow> string \<Rightarrow> FileType \<Rightarrow> Path list" where
  "extractPathsByFileType ex content csv = extractFromCsv ex content"
| "extractPathsByFileType ex content toml = extractFromToml ex content"
| "extractPathsByFileType ex content dotenv = extractFromDotenv ex content"
| "extractPathsByFileType ex content javascript = extractFromJavaScript ex content"
| "extractPathsByFileType ex content typescript = extractFromJavaScript ex content"
| "extractPathsByFileType ex content json = extractFromJson ex content"
| "extractPathsByFileType ex content css = extractFromCss ex content"
| "extractPathsByFileType ex content html = extractFromHtml ex content"
| "extractPathsByFileType ex content unknown = []"

definition buildUnsupportedFormatResult :: "int \<Rightarrow> string \<Rightarrow> ExtractionResult" where
  "buildUnsupportedFormatResult now languageId =
     (let error = \<lparr>
        pe_category = ''format'',
        pe_severity = ''info'',
        pe_message = ''Path extraction is not supported for '' @ languageId
          @ '' files. Supported formats: CSV, TOML, ENV, JS, TS, JSON, HTML, CSS.'',
        pe_context = Some (''File type: '' @ languageId),
        pe_recoverable = False,
        pe_recoveryAction = ''none'',
        pe_timestamp = now,
        pe_metadata = Some \<lparr>
          md_languageId = languageId,
          md_supportedFormats =
            [''csv'', ''toml'', ''dotenv'', ''javascript'', ''typescript'', ''json'', ''html'', ''css'']\<rparr>\<rparr>
      in \<lparr>er_success = False, er_paths = [], er_errors = [error]\<rparr>)"

definition extractPaths :: "Extractors \<Rightarrow> int \<Rightarrow> string \<Rightarrow> string \<Rightarrow> ExtractionResult" where
  "extractPaths ex now content languageId =
     (let fileType = determineFileType languageId
      in if fileType = unknown then buildUnsupportedFormatResult now languageId
         else \<lparr>er_success = True, er_paths = extractPathsByFileType ex content fileType,
                er_errors = []\<rparr>)"

text \<open>Extractors that find nothing, to run \<open>extractPaths\<close> on concrete inputs.\<close>

definition noExtractors :: Extractors where
  "noExtractors = \<lparr>
     extractFromCsv = (\<lambda>content. []),
     extractFromToml = (\<lambda>content. []),
     extractFromDotenv = (\<lambda>content. []),
     extractFromJavaScript = (\<lambda>content. []),
     extractFromJson = (\<lambda>content. []),
     extractFromCss = (\<lambda>content. []),
     extractFromHtml = (\<lambda>content. [])\<rparr>"

section \<open>Numbers and the host\<close>

text \<open>
  The numbers of the language, with \<open>x < y\<close>, \<open>x > y\<close>, \<open>x >= y\<close> and \<open>Math.max\<close> on
  them: a comparison with \<open>NaN\<close> is false, and \<open>Math.max\<close> is \<open>NaN\<close> when an argument
  is.
\<close>

datatype jsnum = Num real | PosInfinity | NegInfinity | NaN

fun js_less :: "jsnum \<Rightarrow> jsnum \<Rightarrow> bool" where
  "js_less NaN y = False"
| "js_less x NaN = False"
| "js_less PosInfinity y = False"
| "js_less x NegInfinity = False"
| "js_less NegInfinity y = True"
| "js_less x PosInfinity = True"
| "js_less (Num a) (Num b) = (a < b)"

definition js_greater :: "jsnum \<Rightarrow> jsnum \<Rightarrow> bool" where
  "js_greater x y = js_less y x"

definition Math_max :: "jsnum \<Rightarrow> jsnum \<Rightarrow> jsnum" where
  "Math_max x y =
     (if x = NaN \<or> y = NaN then NaN else if js_less x y then y else x)"

definition js_greater_eq :: "jsnum \<Rightarrow> jsnum \<Rightarrow> bool" where
  "js_greater_eq x y = (x \<noteq> NaN \<and> y \<noteq> NaN \<and> \<not> js_less x y)"

text \<open>
  What the JavaScript engine and the \<open>vscode-nls\<close> library provide: \<open>localize(key,
  message, ...args)\<close>, the \<open>stack\<close> that \<open>new Error(message)\<close> records, the clock and
  \<open>Date.prototype.toISOString\<close>. An argument of \<open>localize\<close>, and a value of the
  \<open>context\<close> record of an error, is a number or a string.
\<close>

datatype jsarg = ANum jsnum | AStr string

record Host =
  localize :: "string \<Rightarrow> string \<Rightarrow> jsarg list \<Rightarrow> string"
  errorStack :: "string \<Rightarrow> string option"
  dateNow :: int
  toISOString :: "int \<Rightarrow> string"

record JsError =
  err_message :: string
  err_stack :: "string option"

definition newError :: "Host \<Rightarrow> string \<Rightarrow> JsError" where
  "newError h msg = \<lparr>err_message = msg, err_stack = errorStack h msg\<rparr>"

text \<open>\<open>String.prototype.includes\<close>.\<close>

fun str_includes :: "string \<Rightarrow> string \<Rightarrow> bool" where
  "str_includes [] sub = (sub = [])"
| "str_includes (c # cs) sub = (if prefix sub (c # cs) then True else str_includes cs sub)"

section \<open>Error handling (\<open>utils/errorHandling.ts\<close>)\<close>

datatype ErrorCategory =
  parse | validation | safety | operational | file_system | configuration | parsing

datatype ErrorSeverity = info | warning | error | critical

datatype RecoveryAction = skip | retry | abort | fallback

datatype EnhancedSeverity = low | medium | high

record EnhancedError =
  ee_category :: ErrorCategory
  ee_originalError :: JsError
  ee_message :: string
  ee_userFriendlyMessage :: string
  ee_userMessage :: string
  ee_suggestion :: string
  ee_recoverable :: bool
  ee_severity :: EnhancedSeverity
  ee_timestamp :: int

record EnhanceOptions =
  opt_recoverable :: "bool option"
  opt_severity :: "EnhancedSeverity option"
  opt_suggestion :: "string option"

definition isErrorRecoverable :: "JsError \<Rightarrow> ErrorCategory \<Rightarrow> bool" where
  "isErrorRecoverable err category =
     (if category = parse \<or> category = parsing then True
      else if category = file_system
        then str_includes (err_message err) ''permission''
           \<or> str_includes (err_message err) ''network''
      else if category = configuration \<or> category = validation then True
      else if category = safety then False
      else if category = operational then \<not> str_includes (err_message err) ''fatal''
      else False)"

definition buildUserFriendlyMessage ::
  "Host \<Rightarrow> JsError \<Rightarrow> ErrorCategory \<Rightarrow> jsarg option \<Rightarrow> string" where
  "buildUserFriendlyMessage h err category context =
     (if category = parse \<or> category = parsing
        then localize h ''runtime.error.parse'' ''Failed to parse path values: {0}''
               [case context of Some c \<Rightarrow> c | None \<Rightarrow> AStr ''unknown file'']
      else if category = file_system
        then localize h ''runtime.error.file-system'' ''File system error: {0}''
               [AStr (err_message err)]
      else if category = configuration
        then localize h ''runtime.error.configuration'' ''Configuration error: {0}''
               [AStr (err_message err)]
      else if category = validation
        then localize h ''runtime.error.validation'' ''Path validation failed: {0}''
               [AStr (err_message err)]
      else if category = safety
        then localize h ''runtime.error.safety'' ''Safety threshold exceeded: {0}''
               [AStr (err_message err)]
      else if category = operational
        then localize h ''runtime.error.operational'' ''Path extraction failed: {0}''
               [AStr (err_message err)]
      else localize h ''runtime.error.unknown'' ''Unknown error: {0}'' [AStr (err_message err)])"

fun buildErrorSuggestion :: "Host \<Rightarrow> ErrorCategory \<Rightarrow> string" where
  "buildErrorSuggestion h parse =
     localize h ''runtime.error.parse.suggestion''
       ''Check the path format and ensure values are valid'' []"
| "buildErrorSuggestion h parsing =
     localize h ''runtime.error.parse.suggestion''
       ''Check the path format and ensure values are valid'' []"
| "buildErrorSuggestion h file_system =
     localize h ''runtime.error.file-system.suggestion''
       ''Check file permissions and ensure the file exists'' []"
| "buildErrorSuggestion h configuration =
     localize h ''runtime.error.configuration.suggestion''
       ''Reset to default settings or check configuration syntax'' []"
| "buildErrorSuggestion h validation =
     localize h ''runtime.error.validation.suggestion''
       ''Review path values and ensure they meet validation criteria'' []"
| "buildErrorSuggestion h safety =
     localize h ''runtime.error.safety.suggestion''
       ''Reduce file size or adjust safety thresholds'' []"
| "buildErrorSuggestion h operational =
     localize h ''runtime.error.operational.suggestion''
       ''Try again or check system resources'' []"

text \<open>
  \<open>context?.filepath\<close> reads the key \<open>filepath\<close> of the context record when there is
  one; \<open>x ?? y\<close> is \<open>y\<close> when \<open>x\<close> is undefined.
\<close>

definition createEnhancedError ::
  "Host \<Rightarrow> JsError \<Rightarrow> ErrorCategory \<Rightarrow> (string \<rightharpoonup> jsarg) option \<Rightarrow> EnhanceOptions option
     \<Rightarrow> EnhancedError" where
  "createEnhancedError h err category context options =
     (let userFriendlyMessage =
            buildUserFriendlyMessage h err category
              (case context of None \<Rightarrow> None | Some c \<Rightarrow> c ''filepath'');
          suggestion =
            (case Option.bind options opt_suggestion of
               Some s \<Rightarrow> s | None \<Rightarrow> buildErrorSuggestion h category);
          recoverable =
            (case Option.bind options opt_recoverable of
               Some r \<Rightarrow> r | None \<Rightarrow> isErrorRecoverable err category);
          severity =
            (case Option.bind options opt_severity of Some v \<Rightarrow> v | None \<Rightarrow> medium)
      in \<lparr>ee_category = category,
          ee_originalError = err,
          ee_message = err_message err,
          ee_userFriendlyMessage = userFriendlyMessage,
          ee_userMessage = userFriendlyMessage,
          ee_suggestion = suggestion,
          ee_recoverable = recoverable,
          ee_severity = severity,
          ee_timestamp = dateNow h\<rparr>)"

definition determineRecoveryAction :: "ErrorCategory \<Rightarrow> ErrorSeverity \<Rightarrow> RecoveryAction" where
  "determineRecoveryAction category severity =
     (if category = file_system \<and> severity = error then retry
      else if category = parsing \<or> category = validation then skip
      else if severity = critical then abort
      else fallback)"

text \<open>
  \<open>createParseError\<close>: the fixed fields come first in the object literal and the
  properties given (\<open>message\<close>, \<open>filepath\<close>, \<open>position\<close>) are spread behind them.
\<close>

record ParseErrorProps =
  pp_message :: string
  pp_filepath :: "string option"
  pp_position :: "(nat \<times> nat) option"

record CreatedParseError =
  cp_category :: ErrorCategory
  cp_severity :: ErrorSeverity
  cp_recoverable :: bool
  cp_recoveryAction :: RecoveryAction
  cp_timestamp :: int
  cp_message :: string
  cp_filepath :: "string option"
  cp_position :: "(nat \<times> nat) option"

definition createParseError :: "Host \<Rightarrow> ParseErrorProps \<Rightarrow> CreatedParseError" where
  "createParseError h props = \<lparr>
     cp_category = parsing,
     cp_severity = warning,
     cp_recoverable = True,
     cp_recoveryAction = skip,
     cp_timestamp = dateNow h,
     cp_message = pp_message props,
     cp_filepath = pp_filepath props,
     cp_position = pp_position props\<rparr>"

subsection \<open>Sanitization\<close>

text \<open>
  \<open>message.replace(re, replacement)\<close> with a global regular expression: the leftmost
  match from the current position on is replaced and the scan goes on behind it (one
  code unit further after an empty match). None of the expressions below has an
  assertion that looks behind the position, so whether and how far one matches at a
  position is a function of the rest of the string from that position: the matcher
  \<open>m\<close> returns the length of the match that starts the string it is given. None of the
  replacement strings below has a \<open>$\<close> pattern.
\<close>

function replaceAll :: "(string \<Rightarrow> nat option) \<Rightarrow> string \<Rightarrow> string \<Rightarrow> string" where
  "replaceAll m rep [] = (case m [] of None \<Rightarrow> [] | Some n \<Rightarrow> rep)"
| "replaceAll m rep (c # cs) =
     (case m (c # cs) of
        None \<Rightarrow> c # replaceAll m rep cs
      | Some 0 \<Rightarrow> rep @ c # replaceAll m rep cs
      | Some (Suc k) \<Rightarrow> rep @ replaceAll m rep (drop k cs))"
  by pat_completeness auto
termination
  by (relation "measure (\<lambda>(m, rep, s). length s)") auto

text \<open>
  The white space of \<open>\s\<close> among the code units below 256, and the letters made equal
  by the flag \<open>i\<close>: a code unit and its ASCII lower case.
\<close>

definition isSpace :: "char \<Rightarrow> bool" where
  "isSpace c = ((of_char c :: nat) \<in> {9, 10, 11, 12, 13, 32, 160})"

definition lowerCode :: "char \<Rightarrow> nat" where
  "lowerCode c = (let n = of_char c in if 65 \<le> n \<and> n \<le> 90 then n + 32 else n)"

definition backslash :: char where
  "backslash = CHR 0x5C"

text \<open>
  \<open>/lead[^sep]+sep/\<close>: the literal \<open>lead\<close>, the longest run of code units other than
  \<open>sep\<close>, which must not be empty, and \<open>sep\<close>. A shorter run is followed by a code unit
  other than \<open>sep\<close>, so giving code units back never helps.
\<close>

definition matchSegment :: "string \<Rightarrow> char \<Rightarrow> string \<Rightarrow> nat option" where
  "matchSegment lead sep s =
     (if prefix lead s then
        (let rest = drop (length lead) s;
             name = takeWhile (\<lambda>c. c \<noteq> sep) rest
         in if name \<noteq> [] \<and> prefix [sep] (drop (length name) rest)
            then Some (length lead + length name + 1) else None)
      else None)"

text \<open>
  \<open>/word[=:]\s*[^\s]+/i\<close> for a lower-case \<open>word\<close>: the word in any case, \<open>=\<close> or \<open>:\<close>,
  the longest run of white space, and the longest run of other code units, which must
  not be empty.
\<close>

definition matchAssignment :: "string \<Rightarrow> string \<Rightarrow> nat option" where
  "matchAssignment word s =
     (if map lowerCode (take (length word) s) = map of_char word then
        (case drop (length word) s of
           [] \<Rightarrow> None
         | d # rest \<Rightarrow>
             if d = CHR ''='' \<or> d = CHR '':'' then
               (let ws = takeWhile isSpace rest;
                    val = takeWhile (\<lambda>c. \<not> isSpace c) (drop (length ws) rest)
                in if val \<noteq> [] then Some (length word + 1 + length ws + length val)
                   else None)
             else None)
      else None)"

definition sanitizeErrorMessage :: "string \<Rightarrow> string" where
  "sanitizeErrorMessage msg =
     replaceAll (matchAssignment ''key'') ''key=***''
       (replaceAll (matchAssignment ''token'') ''token=***''
         (replaceAll (matchAssignment ''password'') ''password=***''
           (replaceAll (matchSegment (''C:'' @ backslash # ''Users'' @ [backslash]) backslash)
              (''C:'' @ backslash # ''Users'' @ backslash # ''***'' @ [backslash])
             (replaceAll (matchSegment ''/home/'' CHR ''/'') ''/home/***/''
               (replaceAll (matchSegment ''/Users/'' CHR ''/'') ''/Users/***/'' msg)))))"

subsection \<open>Console, logger, notifier\<close>

text \<open>
  The console is the list of the lines written to it, each with the method
  (\<open>console.warn\<close>, \<open>console.error\<close>, \<open>console.info\<close>) called. The objects that
  \<open>createErrorLogger\<close> and \<open>createErrorNotifier\<close> return are records of functions on
  the state they write to; the output channel handed to \<open>createErrorLogger\<close> is its
  \<open>appendLine\<close>.
\<close>

datatype ConsoleMethod = console_warn | console_error | console_info

type_synonym Console = "(ConsoleMethod \<times> string) list"

definition handleError :: "EnhancedError \<Rightarrow> Console \<Rightarrow> Console" where
  "handleError err con =
     (let sanitizedMessage = sanitizeErrorMessage (ee_userFriendlyMessage err)
      in if ee_recoverable err then con @ [(console_warn, ''[Paths-LE] '' @ sanitizedMessage)]
         else con @ [(console_error, ''[Paths-LE] '' @ sanitizedMessage)])"

datatype LogLevel = level_info | level_warn | level_error

fun levelUpperCase :: "LogLevel \<Rightarrow> string" where
  "levelUpperCase level_info = ''INFO''"
| "levelUpperCase level_warn = ''WARN''"
| "levelUpperCase level_error = ''ERROR''"

text \<open>The template \<open>${error.category}\<close> prints the string of the category.\<close>

fun categoryString :: "ErrorCategory \<Rightarrow> string" where
  "categoryString parse = ''parse''"
| "categoryString validation = ''validation''"
| "categoryString safety = ''safety''"
| "categoryString operational = ''operational''"
| "categoryString file_system = ''file-system''"
| "categoryString configuration = ''configuration''"
| "categoryString parsing = ''parsing''"

record 'w ErrorLogger =
  logger_log :: "string \<Rightarrow> LogLevel \<Rightarrow> 'w \<Rightarrow> 'w"
  logger_logError :: "EnhancedError \<Rightarrow> 'w \<Rightarrow> 'w"

text \<open>
  Of the four methods of the logger, \<open>log\<close> and \<open>logError\<close> are modelled; \<open>logWarning\<close>
  and \<open>logInfo\<close> write \<open>message\<close> and \<open>JSON.stringify(context)\<close> the way \<open>log\<close> writes
  \<open>message\<close>.
\<close>

definition createErrorLogger :: "Host \<Rightarrow> (string \<Rightarrow> 'w \<Rightarrow> 'w) \<Rightarrow> 'w ErrorLogger" where
  "createErrorLogger h appendLine = \<lparr>
     logger_log = (\<lambda>message level.
       let timestamp = toISOString h (dateNow h)
       in appendLine (''['' @ timestamp @ ''] ['' @ levelUpperCase level @ ''] '' @ message)),
     logger_logError = (\<lambda>err w.
       let timestamp = toISOString h (dateNow h);
           w1 = appendLine (''['' @ timestamp @ ''] [ERROR] '' @ categoryString (ee_category err)
                  @ '': '' @ ee_message err) w
       in case err_stack (ee_originalError err) of
            None \<Rightarrow> w1
          | Some stack \<Rightarrow> if stack = [] then w1 else appendLine (''Stack: '' @ stack) w1)\<rparr>"

record ErrorNotifier =
  showError :: "string \<Rightarrow> string option \<Rightarrow> Console \<Rightarrow> Console"
  showWarning :: "string \<Rightarrow> string option \<Rightarrow> Console \<Rightarrow> Console"
  showInfo :: "string \<Rightarrow> string option \<Rightarrow> Console \<Rightarrow> Console"
  showProgress :: "string \<Rightarrow> Console \<Rightarrow> Console"

text \<open>\<open>details ? `\nDetails: ${details}` : ''\<close>: an empty string is falsy.\<close>

definition detailsSuffix :: "string option \<Rightarrow> string" where
  "detailsSuffix details =
     (case details of
        None \<Rightarrow> []
      | Some d \<Rightarrow> if d = [] then [] else CHR 0x0A # ''Details: '' @ d)"

definition createErrorNotifier :: ErrorNotifier where
  "createErrorNotifier = \<lparr>
     showError = (\<lambda>message details con.
       con @ [(console_error, ''[Paths-LE Error] '' @ message @ detailsSuffix details)]),
     showWarning = (\<lambda>message details con.
       con @ [(console_warn, ''[Paths-LE Warning] '' @ message @ detailsSuffix details)]),
     showInfo = (\<lambda>message details con.
       con @ [(console_info, ''[Paths-LE Info] '' @ message @ detailsSuffix details)]),
     showProgress = (\<lambda>message con.
       con @ [(console_info, ''[Paths-LE Progress] '' @ message)])\<rparr>"

text \<open>
  \<open>notifyUser\<close> of the handler that \<open>createErrorHandler\<close> builds, over the notifier it
  is given.
\<close>

definition notifyUser :: "ErrorNotifier \<Rightarrow> EnhancedError \<Rightarrow> Console \<Rightarrow> Console" where
  "notifyUser notifier err =
     (if ee_severity err = high
        then showError notifier (ee_userMessage err) (Some (ee_suggestion err))
      else if ee_severity err = medium
        then showWarning notifier (ee_userMessage err) (Some (ee_suggestion err))
      else showInfo notifier (ee_userMessage err) (Some (ee_suggestion err)))"

text \<open>A host for running the functions on concrete inputs: \<open>localize\<close> returns the
  default message as it is, errors carry no stack, the clock reads 0.\<close>

definition plainHost :: Host where
  "plainHost = \<lparr>
     localize = (\<lambda>key message args. message),
     errorStack = (\<lambda>message. None),
     dateNow = 0,
     toISOString = (\<lambda>t. ''1970-01-01T00:00:00.000Z'')\<rparr>"

section \<open>Configuration (\<open>config/config.ts\<close>)\<close>

text \<open>
  A stored setting is a boolean, a number or a string of \<open>settings.json\<close> (its numbers
  are finite), and \<open>config.get(key, defaultValue)\<close> is the stored value of the key,
  whatever its type, or \<open>defaultValue\<close> when the key is not set. Settings that hold
  \<open>null\<close>, an array or an object are not modelled. \<open>Boolean\<close> and \<open>Number\<close> are the
  conversions of the language on these values.
\<close>

datatype jsvalue = JBool bool | JNum real | JStr string

type_synonym WorkspaceConfiguration = "string \<rightharpoonup> jsvalue"

definition config_get :: "WorkspaceConfiguration \<Rightarrow> string \<Rightarrow> jsvalue \<Rightarrow> jsvalue" where
  "config_get config key defaultValue =
     (case config key of None \<Rightarrow> defaultValue | Some v \<Rightarrow> v)"

fun Boolean :: "jsvalue \<Rightarrow> bool" where
  "Boolean (JBool b) = b"
| "Boolean (JNum r) = (r \<noteq> 0)"
| "Boolean (JStr s) = (s \<noteq> [])"

text \<open>
  \<open>Number\<close> of a string (\<open>StringToNumber\<close> of the language): white space is trimmed
  (the same code units as for \<open>\s\<close>); the empty string is 0; a literal \<open>0x\<close>, \<open>0o\<close>
  or \<open>0b\<close> with digits of its base, or a decimal literal with an optional sign
  (\<open>Infinity\<close>, or digits with an optional fraction and an optional exponent) is its
  value; every other string is \<open>NaN\<close>.
\<close>

definition digitValue :: "char \<Rightarrow> nat option" where
  "digitValue c =
     (let n = (of_char c :: nat)
      in if 48 \<le> n \<and> n \<le> 57 then Some (n - 48)
         else if 97 \<le> n \<and> n \<le> 102 then Some (n - 87)
         else if 65 \<le> n \<and> n \<le> 70 then Some (n - 55)
         else None)"

definition isDigitOf :: "nat \<Rightarrow> char \<Rightarrow> bool" where
  "isDigitOf base c = (case digitValue c of None \<Rightarrow> False | Some d \<Rightarrow> d < base)"

definition digitsValue :: "nat \<Rightarrow> string \<Rightarrow> nat" where
  "digitsValue base ds =
     foldl (\<lambda>acc c. acc * base + (case digitValue c of None \<Rightarrow> 0 | Some d \<Rightarrow> d)) 0 ds"

definition trimSpace :: "string \<Rightarrow> string" where
  "trimSpace s = rev (dropWhile isSpace (rev (dropWhile isSpace s)))"

definition nonDecimalLiteral :: "string \<Rightarrow> jsnum option" where
  "nonDecimalLiteral s =
     (case s of
        z # p # ds \<Rightarrow>
          (let base =
             (if p = CHR ''x'' \<or> p = CHR ''X'' then 16
              else if p = CHR ''o'' \<or> p = CHR ''O'' then 8
              else if p = CHR ''b'' \<or> p = CHR ''B'' then 2
              else 0 :: nat)
           in if z = CHR ''0'' \<and> base \<noteq> 0 then
                Some (if ds \<noteq> [] \<and> list_all (isDigitOf base) ds
                      then Num (real (digitsValue base ds)) else NaN)
              else None)
      | _ \<Rightarrow> None)"

definition exponentPart :: "string \<Rightarrow> int option" where
  "exponentPart r =
     (case r of
        [] \<Rightarrow> Some 0
      | e # r1 \<Rightarrow>
          if e = CHR ''e'' \<or> e = CHR ''E'' then
            (let negative = prefix ''-'' r1;
                 ds = (if prefix ''+'' r1 \<or> prefix ''-'' r1 then tl r1 else r1)
             in if ds \<noteq> [] \<and> list_all (isDigitOf 10) ds
                then Some (if negative then - int (digitsValue 10 ds) else int (digitsValue 10 ds))
                else None)
          else None)"

definition unsignedDecimalLiteral :: "string \<Rightarrow> real option" where
  "unsignedDecimalLiteral u =
     (let ip = takeWhile (isDigitOf 10) u;
          r1 = drop (length ip) u;
          dot = prefix ''.'' r1;
          fp = (if dot then takeWhile (isDigitOf 10) (tl r1) else []);
          r2 = (if dot then drop (length fp) (tl r1) else r1)
      in if ip = [] \<and> fp = [] then None
         else
           (case exponentPart r2 of
              None \<Rightarrow> None
            | Some e \<Rightarrow>
                Some ((real (digitsValue 10 ip) + real (digitsValue 10 fp) / 10 ^ length fp)
                      * (if e < 0 then 1 / 10 ^ nat (- e) else 10 ^ nat e))))"

definition StringToNumber :: "string \<Rightarrow> jsnum" where
  "StringToNumber s =
     (let t = trimSpace s
      in if t = [] then Num 0
         else
           (case nonDecimalLiteral t of
              Some n \<Rightarrow> n
            | None \<Rightarrow>
                (let negative = prefix ''-'' t;
                     u = (if prefix ''+'' t \<or> prefix ''-'' t then tl t else t)
                 in if u = ''Infinity'' then (if negative then NegInfinity else PosInfinity)
                    else
                      (case unsignedDecimalLiteral u of
                         None \<Rightarrow> NaN
                       | Some v \<Rightarrow> Num (if negative then - v else v)))))"

fun Number :: "jsvalue \<Rightarrow> jsnum" where
  "Number (JBool b) = Num (if b then 1 else 0)"
| "Number (JNum r) = Num r"
| "Number (JStr s) = StringToNumber s"

definition readBoolean :: "WorkspaceConfiguration \<Rightarrow> string \<Rightarrow> bool \<Rightarrow> bool" where
  "readBoolean config key defaultValue = Boolean (config_get config key (JBool defaultValue))"

definition readNumber :: "WorkspaceConfiguration \<Rightarrow> string \<Rightarrow> real \<Rightarrow> real \<Rightarrow> jsnum" where
  "readNumber config key defaultValue minValue =
     Math_max (Num minValue) (Number (config_get config key (JNum defaultValue)))"

record Resolution =
  resolveSymlinks :: "bool option"
  resolveWorkspaceRelative :: "bool option"

record Validation =
  val_enabled :: "bool option"
  val_checkExistence :: "bool option"
  val_checkPermissions :: "bool option"

text \<open>
  The boolean and numeric fields of \<open>Configuration\<close>. Its string-valued fields
  (\<open>notificationsLevel\<close>, the three keyboard shortcuts, \<open>defaultPreset\<close>) are read by none
  of the functions below and are left out. The fields of \<open>resolution\<close> and
  \<open>validation\<close> are optional for the readers (\<open>config.resolution?.resolveSymlinks ??
  false\<close>); \<open>getConfiguration\<close> sets them all.
\<close>

record Configuration =
  copyToClipboardEnabled :: bool
  dedupeEnabled :: bool
  postProcessOpenInNewFile :: bool
  openResultsSideBySide :: bool
  safetyEnabled :: bool
  safetyFileSizeWarnBytes :: jsnum
  safetyLargeOutputLinesThreshold :: jsnum
  safetyManyDocumentsThreshold :: jsnum
  showParseErrors :: bool
  statusBarEnabled :: bool
  telemetryEnabled :: bool
  analysisEnabled :: bool
  analysisIncludeValidation :: bool
  analysisIncludePatterns :: bool
  validationEnabled :: bool
  validationCheckExistence :: bool
  validationCheckPermissions :: bool
  performanceEnabled :: bool
  performanceMaxDuration :: jsnum
  performanceMaxMemoryUsage :: jsnum
  performanceMaxCpuUsage :: jsnum
  performanceMinThroughput :: jsnum
  performanceMaxCacheSize :: jsnum
  keyboardShortcutsEnabled :: bool
  presetsEnabled :: bool
  cfg_resolution :: "Resolution option"
  cfg_validation :: "Validation option"

definition getConfiguration :: "WorkspaceConfiguration \<Rightarrow> Configuration" where
  "getConfiguration config = \<lparr>
     copyToClipboardEnabled = readBoolean config ''copyToClipboardEnabled'' False,
     dedupeEnabled = readBoolean config ''dedupeEnabled'' False,
     postProcessOpenInNewFile = readBoolean config ''postProcess.openInNewFile'' False,
     openResultsSideBySide = readBoolean config ''openResultsSideBySide'' False,
     safetyEnabled = readBoolean config ''safety.enabled'' True,
     safetyFileSizeWarnBytes = readNumber config ''safety.fileSizeWarnBytes'' 1000000 1000,
     safetyLargeOutputLinesThreshold =
       readNumber config ''safety.largeOutputLinesThreshold'' 50000 100,
     safetyManyDocumentsThreshold = readNumber config ''safety.manyDocumentsThreshold'' 8 1,
     showParseErrors = readBoolean config ''showParseErrors'' False,
     statusBarEnabled = readBoolean config ''statusBar.enabled'' True,
     telemetryEnabled = readBoolean config ''telemetryEnabled'' False,
     analysisEnabled = readBoolean config ''analysis.enabled'' True,
     analysisIncludeValidation = readBoolean config ''analysis.includeValidation'' True,
     analysisIncludePatterns = readBoolean config ''analysis.includePatterns'' True,
     validationEnabled = readBoolean config ''validation.enabled'' True,
     validationCheckExistence = readBoolean config ''validation.checkExistence'' True,
     validationCheckPermissions = readBoolean config ''validation.checkPermissions'' False,
     performanceEnabled = readBoolean config ''performance.enabled'' True,
     performanceMaxDuration = readNumber config ''performance.maxDuration'' 5000 1000,
     performanceMaxMemoryUsage =
       readNumber config ''performance.maxMemoryUsage'' 104857600 1048576,
     performanceMaxCpuUsage = readNumber config ''performance.maxCpuUsage'' 1000000 100000,
     performanceMinThroughput = readNumber config ''performance.minThroughput'' 1000 100,
     performanceMaxCacheSize = readNumber config ''performance.maxCacheSize'' 1000 100,
     keyboardShortcutsEnabled = readBoolean config ''keyboard.shortcuts.enabled'' True,
     presetsEnabled = readBoolean config ''presets.enabled'' True,
     cfg_resolution = Some \<lparr>
       resolveSymlinks = Some (readBoolean config ''resolution.resolveSymlinks'' False),
       resolveWorkspaceRelative =
         Some (readBoolean config ''resolution.resolveWorkspaceRelative'' False)\<rparr>,
     cfg_validation = Some \<lparr>
       val_enabled = Some (readBoolean config ''validation.enabled'' True),
       val_checkExistence = Some (readBoolean config ''validation.checkExistence'' True),
       val_checkPermissions =
         Some (readBoolean config ''validation.checkPermissions'' False)\<rparr>\<rparr>"

section \<open>Safety checks (\<open>utils/safety.ts\<close>)\<close>

record TextDocument =
  getText :: string
  fileName :: string
  doc_languageId :: string

record SafetyResult =
  sr_proceed :: bool
  sr_message :: string
  sr_error :: "EnhancedError option"
  sr_warnings :: "string list"

record CustomThresholds =
  ct_fileSizeBytes :: "jsnum option"
  ct_lineCount :: "jsnum option"
  ct_pathCount :: "jsnum option"

record SafetyCheckOptions =
  showProgressOption :: "bool option"
  allowOverride :: "bool option"
  customThresholds :: "CustomThresholds option"

text \<open>The default \<open>options = {}\<close>.\<close>

definition noOptions :: SafetyCheckOptions where
  "noOptions = \<lparr>showProgressOption = None, allowOverride = None, customThresholds = None\<rparr>"

subsection \<open>The counting heuristics\<close>

text \<open>\<open>content.match(re) ?? []\<close> with a global expression: the matched substrings.\<close>

function matchAll :: "(string \<Rightarrow> nat option) \<Rightarrow> string \<Rightarrow> string list" where
  "matchAll m [] = (case m [] of None \<Rightarrow> [] | Some n \<Rightarrow> [[]])"
| "matchAll m (c # cs) =
     (case m (c # cs) of
        None \<Rightarrow> matchAll m cs
      | Some 0 \<Rightarrow> [] # matchAll m cs
      | Some (Suc k) \<Rightarrow> take (Suc k) (c # cs) # matchAll m (drop k cs))"
  by pat_completeness auto
termination
  by (relation "measure (\<lambda>(m, s). length s)") auto

definition doubleQuote :: char where
  "doubleQuote = CHR 0x22"

definition singleQuote :: char where
  "singleQuote = CHR 0x27"

definition backtick :: char where
  "backtick = CHR 0x60"

definition newline :: char where
  "newline = CHR 0x0A"

text \<open>The class \<open>[^\s"'<>|*?]\<close>.\<close>

definition pathChar :: "char \<Rightarrow> bool" where
  "pathChar c =
     (\<not> isSpace c \<and> c \<notin> set [doubleQuote, singleQuote, CHR ''<'', CHR ''>'', CHR ''|'',
        CHR ''*'', CHR ''?''])"

text \<open>\<open>[^\s"'<>|*?]+\<close> behind a prefix of \<open>k\<close> code units.\<close>

definition matchRun :: "nat \<Rightarrow> string \<Rightarrow> nat option" where
  "matchRun k rest =
     (let run = takeWhile pathChar rest in if run \<noteq> [] then Some (k + length run) else None)"

text \<open>\<open>/\/[^\s"'<>|*?]+/\<close>\<close>

definition matchUnixPath :: "string \<Rightarrow> nat option" where
  "matchUnixPath s =
     (case s of [] \<Rightarrow> None | c # rest \<Rightarrow> if c = CHR ''/'' then matchRun 1 rest else None)"

definition isAsciiLetter :: "char \<Rightarrow> bool" where
  "isAsciiLetter c =
     (let n = (of_char c :: nat) in (65 \<le> n \<and> n \<le> 90) \<or> (97 \<le> n \<and> n \<le> 122))"

text \<open>\<open>/[A-Za-z]:\\[^\s"'<>|*?]+/\<close>\<close>

definition matchWindowsPath :: "string \<Rightarrow> nat option" where
  "matchWindowsPath s =
     (case s of
        a # b # c # rest \<Rightarrow>
          if isAsciiLetter a \<and> b = CHR '':'' \<and> c = backslash then matchRun 3 rest else None
      | _ \<Rightarrow> None)"

text \<open>
  \<open>/\.\.?\/[^\s"'<>|*?]+/\<close>: behind \<open>../\<close> the optional dot is taken; giving it back
  leaves a dot where the slash is expected.
\<close>

definition matchRelativePath :: "string \<Rightarrow> nat option" where
  "matchRelativePath s =
     (if prefix ''../'' s then matchRun 3 (drop 3 s)
      else if prefix ''./'' s then matchRun 2 (drop 2 s)
      else None)"

definition isQuote :: "char \<Rightarrow> bool" where
  "isQuote c = (c = doubleQuote \<or> c = singleQuote)"

text \<open>\<open>/["'][^"']*["']/\<close>\<close>

definition matchQuoted :: "string \<Rightarrow> nat option" where
  "matchQuoted s =
     (case s of
        [] \<Rightarrow> None
      | q # rest \<Rightarrow>
          if isQuote q then
            (let body = takeWhile (\<lambda>c. \<not> isQuote c) rest
             in if drop (length body) rest \<noteq> [] then Some (length body + 2) else None)
          else None)"

definition estimatePathCount :: "string \<Rightarrow> nat" where
  "estimatePathCount content =
     (let unixPaths = length (matchAll matchUnixPath content);
          windowsPaths = length (matchAll matchWindowsPath content);
          relativePaths = length (matchAll matchRelativePath content);
          quotedPaths =
            length (filter (\<lambda>p. str_includes p ''/'' \<or> str_includes p [backslash])
              (matchAll matchQuoted content))
      in unixPaths + windowsPaths + relativePaths + quotedPaths)"

text \<open>
  \<open>/\{[^{}]*\{[^{}]*\}[^{}]*\}/\<close> and \<open>/\[[^[\]]*\[[^[\]]*\][^[\]]*\]/\<close>: an opening
  bracket, a longest run without brackets, an opening bracket, a run, a closing bracket,
  a run, a closing bracket.
\<close>

definition matchNested :: "char \<Rightarrow> char \<Rightarrow> string \<Rightarrow> nat option" where
  "matchNested opn cls s =
     (case s of
        [] \<Rightarrow> None
      | c # r0 \<Rightarrow>
          if c \<noteq> opn then None
          else
            (let a = takeWhile (\<lambda>x. x \<noteq> opn \<and> x \<noteq> cls) r0;
                 r1 = drop (length a) r0
             in if \<not> prefix [opn] r1 then None
                else
                  (let b = takeWhile (\<lambda>x. x \<noteq> opn \<and> x \<noteq> cls) (tl r1);
                       r2 = drop (length b) (tl r1)
                   in if \<not> prefix [cls] r2 then None
                      else
                        (let d = takeWhile (\<lambda>x. x \<noteq> opn \<and> x \<noteq> cls) (tl r2);
                             r3 = drop (length d) (tl r2)
                         in if prefix [cls] r3
                            then Some (length a + length b + length d + 4) else None))))"

text \<open>\<open>/\/[^/\n]+\/[gimuy]*/\<close>\<close>

definition matchRegexLiteral :: "string \<Rightarrow> nat option" where
  "matchRegexLiteral s =
     (case s of
        [] \<Rightarrow> None
      | c # rest \<Rightarrow>
          if c = CHR ''/'' then
            (let body = takeWhile (\<lambda>x. x \<noteq> CHR ''/'' \<and> x \<noteq> newline) rest;
                 after = drop (length body) rest
             in if body \<noteq> [] \<and> prefix ''/'' after
                then Some (length body + 2 + length (takeWhile (\<lambda>x. x \<in> set ''gimuy'') (tl after)))
                else None)
          else None)"

text \<open>
  \<open>/`[^`]*\$\{[^}]*\}[^`]*`/\<close>. The first run may end before any \<open>${\<close> it holds; the
  longest is tried first. \<open>templateAt rest j\<close> is the match whose first run has \<open>j\<close>
  code units, \<open>rest\<close> being the string behind the opening backtick; from there on the
  two other runs are the longest ones.
\<close>

definition templateAt :: "string \<Rightarrow> nat \<Rightarrow> nat option" where
  "templateAt rest j =
     (if prefix [CHR ''$'', CHR ''{''] (drop j rest) then
        (let r1 = drop (j + 2) rest;
             b = takeWhile (\<lambda>x. x \<noteq> CHR ''}'') r1;
             r2 = drop (length b) r1
         in if r2 = [] then None
            else
              (let d = takeWhile (\<lambda>x. x \<noteq> backtick) (tl r2);
                   r3 = drop (length d) (tl r2)
               in if r3 = [] then None else Some (j + length b + length d + 5)))
      else None)"

fun firstSome :: "('a \<Rightarrow> 'b option) \<Rightarrow> 'a list \<Rightarrow> 'b option" where
  "firstSome f [] = None"
| "firstSome f (x # xs) = (case f x of Some y \<Rightarrow> Some y | None \<Rightarrow> firstSome f xs)"

definition matchTemplate :: "string \<Rightarrow> nat option" where
  "matchTemplate s =
     (case s of
        [] \<Rightarrow> None
      | c # rest \<Rightarrow>
          if c = backtick
          then firstSome (templateAt rest)
                 (rev [0..<Suc (length (takeWhile (\<lambda>x. x \<noteq> backtick) rest))])
          else None)"

definition countComplexPatterns :: "string \<Rightarrow> nat" where
  "countComplexPatterns content =
     (let nestedObjects = length (matchAll (matchNested CHR ''{'' CHR ''}'') content);
          nestedArrays = length (matchAll (matchNested CHR ''['' CHR '']'') content);
          regexPatterns = length (matchAll matchRegexLiteral content);
          templateLiterals = length (matchAll matchTemplate content)
      in nestedObjects + nestedArrays + regexPatterns + templateLiterals)"

subsection \<open>The checks\<close>

text \<open>\<open>content.split('\n')\<close>\<close>

fun splitOn :: "char \<Rightarrow> string \<Rightarrow> string list" where
  "splitOn sep [] = [[]]"
| "splitOn sep (c # cs) =
     (if c = sep then [] # splitOn sep cs
      else (case splitOn sep cs of [] \<Rightarrow> [[c]] | l # ls \<Rightarrow> (c # l) # ls))"

definition collectSafetyWarnings ::
  "Host \<Rightarrow> string \<Rightarrow> Configuration \<Rightarrow> SafetyCheckOptions \<Rightarrow> string list" where
  "collectSafetyWarnings h content config options =
     (let lines = splitOn newline content;
          lineCountThreshold =
            (case Option.bind (customThresholds options) ct_lineCount of
               Some t \<Rightarrow> t | None \<Rightarrow> safetyLargeOutputLinesThreshold config);
          warnings1 =
            (if js_greater (Num (real (length lines))) lineCountThreshold
             then [localize h ''runtime.safety.line-count.warning''
                     ''Large file detected: {0} lines (threshold: {1})''
                     [ANum (Num (real (length lines))), ANum lineCountThreshold]]
             else []);
          estimatedPaths = estimatePathCount content;
          warnings2 = warnings1 @
            (if estimatedPaths > 1000
             then [localize h ''runtime.safety.path-count.warning''
                     ''Large number of paths detected: estimated {0} paths''
                     [ANum (Num (real estimatedPaths))]]
             else []);
          complexPatterns = countComplexPatterns content
      in warnings2 @
            (if complexPatterns > 100
             then [localize h ''runtime.safety.complex-patterns.warning''
                     ''Complex patterns detected: {0} patterns''
                     [ANum (Num (real complexPatterns))]]
             else []))"

definition buildSafetyMessage :: "Host \<Rightarrow> string list \<Rightarrow> string" where
  "buildSafetyMessage h warnings =
     (if length warnings = 0 then localize h ''runtime.safety.passed'' ''Safety checks passed'' []
      else localize h ''runtime.safety.warnings'' ''Safety checks passed with {0} warnings''
             [ANum (Num (real (length warnings)))])"

definition buildFileSizeError :: "Host \<Rightarrow> nat \<Rightarrow> jsnum \<Rightarrow> string \<Rightarrow> SafetyResult" where
  "buildFileSizeError h fileSize threshold name =
     (let err = createEnhancedError h
            (newError h
               (localize h ''runtime.safety.file-size''
                  ''File size ({0} bytes) exceeds safety threshold ({1} bytes)''
                  [ANum (Num (real fileSize)), ANum threshold]))
            safety
            (Some [''fileSize'' \<mapsto> ANum (Num (real fileSize)), ''threshold'' \<mapsto> ANum threshold,
                   ''fileName'' \<mapsto> AStr name])
            (Some \<lparr>opt_recoverable = Some False,
                   opt_severity = Some high,
                   opt_suggestion = Some (localize h ''runtime.safety.file-size.suggestion''
                     ''Consider splitting the file or increasing the safety threshold in settings''
                     [])\<rparr>)
      in \<lparr>sr_proceed = False, sr_message = ee_userMessage err, sr_error = Some err,
          sr_warnings = []\<rparr>)"

text \<open>\<open>options.customThresholds?.fileSizeBytes ?? config.safetyFileSizeWarnBytes\<close>\<close>

definition fileSizeThreshold :: "Configuration \<Rightarrow> SafetyCheckOptions \<Rightarrow> jsnum" where
  "fileSizeThreshold config options =
     (case Option.bind (customThresholds options) ct_fileSizeBytes of
        Some t \<Rightarrow> t | None \<Rightarrow> safetyFileSizeWarnBytes config)"

definition handleSafetyChecks ::
  "Host \<Rightarrow> TextDocument \<Rightarrow> Configuration \<Rightarrow> SafetyCheckOptions \<Rightarrow> SafetyResult" where
  "handleSafetyChecks h document config options =
     (if \<not> safetyEnabled config
      then \<lparr>sr_proceed = True, sr_message = [], sr_error = None, sr_warnings = []\<rparr>
      else
        (let content = getText document
         in if js_greater (Num (real (length content))) (fileSizeThreshold config options)
            then buildFileSizeError h (length content) (fileSizeThreshold config options)
                   (fileName document)
            else
              (let warnings = collectSafetyWarnings h content config options
               in \<lparr>sr_proceed = True, sr_message = buildSafetyMessage h warnings,
                   sr_error = None, sr_warnings = warnings\<rparr>)))"

subsection \<open>The confirmation dialog\<close>

text \<open>
  The user in front of the modal dialog: \<open>ui_answer n\<close> is the item picked in the
  dialog shown as the \<open>n\<close>-th one (none when the dialog is dismissed), \<open>ui_shown\<close> the
  messages of the dialogs shown so far.
\<close>

record Ui =
  ui_answer :: "nat \<Rightarrow> string option"
  ui_shown :: "string list"

definition promptUserOverride :: "Host \<Rightarrow> string \<Rightarrow> Ui \<Rightarrow> bool \<times> Ui" where
  "promptUserOverride h message ui =
     (let override = ui_answer ui (length (ui_shown ui))
      in (override = Some (localize h ''runtime.safety.override.continue'' ''Continue Anyway'' []),
          ui\<lparr>ui_shown := ui_shown ui @ [message]\<rparr>))"

definition handleSafetyChecksWithUserConfirmation ::
  "Host \<Rightarrow> TextDocument \<Rightarrow> Configuration \<Rightarrow> SafetyCheckOptions \<Rightarrow> Ui \<Rightarrow> SafetyResult \<times> Ui"
  where
  "handleSafetyChecksWithUserConfirmation h document config options ui =
     (let result = handleSafetyChecks h document config options
      in if \<not> sr_proceed result \<and> allowOverride options = Some True then
           (let answered = promptUserOverride h (sr_message result) ui
            in if fst answered
               then (result\<lparr>sr_proceed := True,
                       sr_message := localize h ''runtime.safety.override.approved''
                         ''Safety override approved by user'' []\<rparr>,
                     snd answered)
               else (result, snd answered))
         else (result, ui))"

subsection \<open>Cancellation and warnings\<close>

text \<open>
  \<open>maxTimeMs\<close> has the default 30000; \<open>startTime\<close> and \<open>maxTimeMs\<close> are readings of
  the clock and a number of milliseconds, taken as integers.
\<close>

definition shouldCancelOperation :: "Host \<Rightarrow> jsnum \<Rightarrow> jsnum \<Rightarrow> int \<Rightarrow> int option \<Rightarrow> bool" where
  "shouldCancelOperation h processedItems threshold startTime maxTimeMs =
     (let elapsedTime = dateNow h - startTime
      in js_greater processedItems threshold
         \<or> elapsedTime > (case maxTimeMs of Some t \<Rightarrow> t | None \<Rightarrow> 30000))"

definition createSafetyWarning :: "Host \<Rightarrow> string \<Rightarrow> (string \<rightharpoonup> jsarg) \<Rightarrow> EnhancedError" where
  "createSafetyWarning h message details =
     createEnhancedError h (newError h message) safety (Some details)
       (Some \<lparr>opt_recoverable = Some True,
              opt_severity = Some medium,
              opt_suggestion = Some (localize h ''runtime.safety.warning.suggestion''
                ''Consider adjusting safety settings or breaking down the operation'' [])\<rparr>)"

section \<open>The extract command (\<open>commands/extract.ts\<close>): batch resolution\<close>

text \<open>
  \<open>getWorkspaceFolderForPath\<close> and \<open>resolvePathCanonical\<close> are imported from modules
  that are not among the sources; they are parameters. \<open>resolvePathCanonical\<close> reads
  the file system, which is taken as fixed while one batch is resolved, so that the
  resolution of a path is a function of the path and the options; it does not throw
  (on a failure it returns the path it was given). The type \<open>'w\<close> is the type of
  workspace folders (objects, which are truthy).
\<close>

record 'w ResolveOptions =
  ro_resolveSymlinks :: bool
  ro_resolveWorkspaceRelative :: bool
  ro_workspaceFolder :: "'w option"

record 'w Resolver =
  getWorkspaceFolderForPath :: "string \<Rightarrow> 'w option"
  resolvePathCanonical :: "string \<Rightarrow> 'w ResolveOptions \<Rightarrow> string"

text \<open>
  The body of the callback of \<open>paths.map\<close> up to the value that its \<open>await\<close> yields.
\<close>

definition resolveOne :: "'w Resolver \<Rightarrow> Configuration \<Rightarrow> string \<Rightarrow> string" where
  "resolveOne rs config pathValue =
     (let workspaceFolder = getWorkspaceFolderForPath rs pathValue;
          resolveOptions = \<lparr>
            ro_resolveSymlinks =
              (case Option.bind (cfg_resolution config) resolveSymlinks of
                 Some b \<Rightarrow> b | None \<Rightarrow> False),
            ro_resolveWorkspaceRelative =
              (case Option.bind (cfg_resolution config) resolveWorkspaceRelative of
                 Some b \<Rightarrow> b | None \<Rightarrow> False),
            ro_workspaceFolder = workspaceFolder\<rparr>
      in resolvePathCanonical rs pathValue resolveOptions)"

text \<open>
  \<open>Promise.all\<close> over the promises of the callbacks. The resolutions run concurrently
  and finish in an order that the program does not control: the schedule, a list of
  positions of the input. When the resolution at position \<open>i\<close> finishes, the rest of the
  callback runs (it counts the path as resolved or as fallen back) and its promise is
  fulfilled, which \<open>Promise.all\<close> records at position \<open>i\<close> of its array of values. A
  promise is fulfilled once: a position outside the input, or one that is already
  fulfilled, changes nothing. \<open>Promise.all\<close> is fulfilled, with the array, when every
  position is; as long as one is missing the \<open>await\<close> does not return.
\<close>

record Batch =
  resolvedCount :: nat
  fallbackCount :: nat
  fulfilled :: "string option list"

definition finishAt :: "'w Resolver \<Rightarrow> Configuration \<Rightarrow> Path list \<Rightarrow> Batch \<Rightarrow> nat \<Rightarrow> Batch" where
  "finishAt rs config pathList b i =
     (if i < length pathList \<and> i < length (fulfilled b) \<and> fulfilled b ! i = None then
        (let resolved = resolveOne rs config (path_value (pathList ! i))
         in \<lparr>resolvedCount =
               (if resolved \<noteq> path_value (pathList ! i) then resolvedCount b + 1
                else resolvedCount b),
             fallbackCount =
               (if resolved \<noteq> path_value (pathList ! i) then fallbackCount b
                else fallbackCount b + 1),
             fulfilled = (fulfilled b)[i := Some resolved]\<rparr>)
      else b)"

definition runBatch :: "'w Resolver \<Rightarrow> Configuration \<Rightarrow> Path list \<Rightarrow> nat list \<Rightarrow> Batch" where
  "runBatch rs config pathList schedule =
     foldl (finishAt rs config pathList)
       \<lparr>resolvedCount = 0, fallbackCount = 0, fulfilled = replicate (length pathList) None\<rparr>
       schedule"

text \<open>
  The two messages that the function shows in the status bar start with a symbol
  outside the code units modelled; they are kept as the calls.
\<close>

datatype StatusBarCall = ShowResolved nat | ShowResolutionFailed

text \<open>
  The result is \<open>None\<close> when the promise of the function is never fulfilled, else the
  list it is fulfilled with and the status bar behind it.
\<close>

definition resolvePathsIfNeeded ::
  "'w Resolver \<Rightarrow> Path list \<Rightarrow> Configuration \<Rightarrow> bool \<Rightarrow> nat list \<Rightarrow> StatusBarCall list
     \<Rightarrow> (string list \<times> StatusBarCall list) option" where
  "resolvePathsIfNeeded rs pathList config canonicalEnabled schedule statusBar =
     (if \<not> canonicalEnabled then Some (map path_value pathList, statusBar)
      else
        (let b = runBatch rs config pathList schedule
         in case those (fulfilled b) of
              None \<Rightarrow> None
            | Some formattedPaths \<Rightarrow>
                Some (formattedPaths,
                  if resolvedCount b > 0 then statusBar @ [ShowResolved (resolvedCount b)]
                  else if fallbackCount b > 0 then statusBar @ [ShowResolutionFailed]
                  else statusBar)))"

text \<open>
  For the proofs: the array of \<open>Promise.all\<close> has the length of the input, and a
  position that is fulfilled holds the resolution of the path at that position.
\<close>

definition batchSound :: "'w Resolver \<Rightarrow> Configuration \<Rightarrow> Path list \<Rightarrow> Batch \<Rightarrow> bool" where
  "batchSound rs config pathList b =
     (length (fulfilled b) = length pathList
      \<and> list_all (\<lambda>j. fulfilled b ! j = None
            \<or> fulfilled b ! j = Some (resolveOne rs config (path_value (pathList ! j))))
          [0..<length pathList])"

section \<open>Concrete inputs\<close>

text \<open>
  The configuration read from empty settings, a document of twenty code units, options
  with a file-size threshold of three and the override allowed, an output channel that
  keeps its lines, and a user who picks \<open>Continue Anyway\<close> in the first dialog and
  \<open>Cancel\<close> in every later one.
\<close>

definition defaultConfiguration :: Configuration where
  "defaultConfiguration = getConfiguration Map.empty"

definition sampleDocument :: TextDocument where
  "sampleDocument =
     \<lparr>getText = ''LOG=/var/log/app.log'', fileName = ''settings.env'',
      doc_languageId = ''dotenv''\<rparr>"

definition overrideOptions :: SafetyCheckOptions where
  "overrideOptions =
     \<lparr>showProgressOption = None, allowOverride = Some True,
      customThresholds =
        Some \<lparr>ct_fileSizeBytes = Some (Num 3), ct_lineCount = None, ct_pathCount = None\<rparr>\<rparr>"

fun approveOnce :: "nat \<Rightarrow> string option" where
  "approveOnce 0 = Some ''Continue Anyway''"
| "approveOnce (Suc n) = Some ''Cancel''"

definition freshSession :: Ui where
  "freshSession = \<lparr>ui_answer = approveOnce, ui_shown = []\<rparr>"

definition firstCall :: "SafetyResult \<times> Ui" where
  "firstCall =
     handleSafetyChecksWithUserConfirmation plainHost sampleDocument defaultConfiguration
       overrideOptions freshSession"

definition secondCall :: "SafetyResult \<times> Ui" where
  "secondCall =
     handleSafetyChecksWithUserConfirmation plainHost sampleDocument defaultConfiguration
       overrideOptions (snd firstCall)"

definition appendToChannel :: "string \<Rightarrow> string list \<Rightarrow> string list" where
  "appendToChannel line channel = channel @ [line]"

text \<open>
  A resolver that finds no workspace folder and resolves a path by putting \<open>/ws/\<close>
  in front of it, and three paths.
\<close>

definition sampleResolver :: "unit Resolver" where
  "sampleResolver = \<lparr>
     getWorkspaceFolderForPath = (\<lambda>p. None),
     resolvePathCanonical = (\<lambda>p options. ''/ws/'' @ p)\<rparr>"

definition samplePaths :: "Path list" where
  "samplePaths =
     [\<lparr>path_value = ''a'', path_line = None, path_column = None\<rparr>,
      \<lparr>path_value = ''b'', path_line = None, path_column = None\<rparr>,
      \<lparr>path_value = ''c'', path_line = None, path_column = None\<rparr>]"

text \<open>
  The size of the content in the specification's wording, as a definition of its own:
  the number of bytes of the content in UTF-8, where a code unit below 128 takes one
  byte and a code unit from 128 to 255 takes two. A document of four letters \<open>e\<close> with
  an acute accent (the code unit 233), and options with a file-size threshold of five.
\<close>

definition utf8ByteLength :: "string \<Rightarrow> nat" where
  "utf8ByteLength content =
     length (filter (\<lambda>c. (of_char c :: nat) < 128) content)
     + 2 * length (filter (\<lambda>c. 128 \<le> (of_char c :: nat)) content)"

definition accentedDocument :: TextDocument where
  "accentedDocument =
     \<lparr>getText = [CHR 0xE9, CHR 0xE9, CHR 0xE9, CHR 0xE9], fileName = ''notes.env'',
      doc_languageId = ''dotenv''\<rparr>"

definition thresholdFive :: SafetyCheckOptions where
  "thresholdFive =
     \<lparr>showProgressOption = None, allowOverride = None,
      customThresholds =
        Some \<lparr>ct_fileSizeBytes = Some (Num 5), ct_lineCount = None, ct_pathCount = None\<rparr>\<rparr>"

text \<open>
  Settings that put every numeric threshold at 10, and settings that hold the string
  \<open>abc\<close> for the file-size threshold.
\<close>

definition textSettings :: WorkspaceConfiguration where
  "textSettings = [''safety.fileSizeWarnBytes'' \<mapsto> JStr ''abc'']"


definition lowSettings :: WorkspaceConfiguration where
  "lowSettings =
     [''safety.fileSizeWarnBytes'' \<mapsto> JNum 10,
      ''safety.largeOutputLinesThreshold'' \<mapsto> JNum 10,
      ''safety.manyDocumentsThreshold'' \<mapsto> JNum 10,
      ''performance.maxDuration'' \<mapsto> JNum 10,
      ''performance.maxMemoryUsage'' \<mapsto> JNum 10,
      ''performance.maxCpuUsage'' \<mapsto> JNum 10,
      ''performance.minThroughput'' \<mapsto> JNum 10,
      ''performance.maxCacheSize'' \<mapsto> JNum 10]"

section \<open>Deduplication: first occurrences, in order\<close>

lemma deduplicateLoop_firstsFrom:
  "deduplicateLoop xs seen acc = acc @ firstsFrom seen xs"
  by (induction xs arbitrary: seen acc) auto

lemma firstsFrom_index:
  "firstsFrom seen xs =
     map (\<lambda>i. xs ! i)
       (filter (\<lambda>i. xs ! i \<noteq> '''' \<and> xs ! i \<notin> seen \<union> set (take i xs)) [0..<length xs])"
proof (induction xs arbitrary: seen)
  case Nil
  show ?case by simp
next
  case (Cons x xs)
  have upt: "[0..<length (x # xs)] = 0 # map Suc [0..<length xs]"
    by (simp add: upt_conv_Cons map_Suc_upt del: upt_Suc)
  show ?case
    unfolding upt
    by (auto simp add: Cons.IH filter_map comp_def simp del: upt_Suc
        intro!: arg_cong [where f = "map ((!) xs)"] filter_cong)
qed

text \<open>
  C9. For every list of lines, \<open>deduplicateLines\<close> returns the first occurrences of the
  non-empty lines, in first-seen order, without the empty strings; on
  \<open>['a','b','a','','c','b']\<close> it returns \<open>['a','b','c']\<close>.
\<close>

theorem deduplicateLines_first_occurrences:
  "deduplicateLines lines = firstOccurrences lines
   \<and> deduplicateLines [''a'', ''b'', ''a'', '''', ''c'', ''b''] = [''a'', ''b'', ''c'']"
proof
  show "deduplicateLines lines = firstOccurrences lines"
    by (simp add: deduplicateLines_def firstOccurrences_def deduplicateLoop_firstsFrom
        firstsFrom_index)
  show "deduplicateLines [''a'', ''b'', ''a'', '''', ''c'', ''b''] = [''a'', ''b'', ''c'']"
    by (simp add: deduplicateLines_def)
qed

section \<open>Extraction: the result for an unsupported and for a supported format\<close>

text \<open>
  C1. For every content and every format identifier that \<open>determineFileType\<close> maps to
  \<open>unknown\<close>, \<open>extractPaths\<close> returns a result with \<open>success\<close> false, no paths, and
  exactly one error; the error has category \<open>format\<close>, severity \<open>info\<close> and is not
  recoverable.
\<close>

theorem extractPaths_unsupported_format:
  assumes "determineFileType languageId = unknown"
  shows "er_success (extractPaths ex now content languageId) = False
    \<and> er_paths (extractPaths ex now content languageId) = []
    \<and> (\<exists>e. er_errors (extractPaths ex now content languageId) = [e]
          \<and> pe_category e = ''format'' \<and> pe_severity e = ''info''
          \<and> pe_recoverable e = False)"
  using assms by (simp add: extractPaths_def buildUnsupportedFormatResult_def)

theorem extractPaths_unsupported_format_witness:
  "determineFileType ''python'' = unknown
    \<and> er_success (extractPaths noExtractors 0 ''import os'' ''python'') = False
    \<and> er_paths (extractPaths noExtractors 0 ''import os'' ''python'') = []
    \<and> (\<exists>e. er_errors (extractPaths noExtractors 0 ''import os'' ''python'') = [e]
          \<and> pe_category e = ''format'' \<and> pe_severity e = ''info''
          \<and> pe_recoverable e = False)"
proof -
  have u: "determineFileType ''python'' = unknown"
    by (simp add: determineFileType_def)
  show ?thesis
    using u extractPaths_unsupported_format [OF u, of noExtractors 0 "''import os''"]
    by blast
qed

text \<open>
  C10. When \<open>extractPaths\<close> returns \<open>success\<close> true its \<open>errors\<close> are empty; for every
  content and every supported format identifier it returns \<open>success\<close> true with no
  errors.
\<close>

theorem extractPaths_success_no_errors:
  "(er_success (extractPaths ex now content languageId)
      \<longrightarrow> er_errors (extractPaths ex now content languageId) = [])
   \<and> (determineFileType languageId \<noteq> unknown
      \<longrightarrow> er_success (extractPaths ex now content languageId)
        \<and> er_errors (extractPaths ex now content languageId) = [])"
proof (cases "determineFileType languageId = unknown")
  case True
  then have "er_success (extractPaths ex now content languageId) = False"
    by (simp add: extractPaths_def buildUnsupportedFormatResult_def)
  with True show ?thesis by simp
next
  case False
  then have "extractPaths ex now content languageId
      = \<lparr>er_success = True,
         er_paths = extractPathsByFileType ex content (determineFileType languageId),
         er_errors = []\<rparr>"
    by (simp add: extractPaths_def Let_def)
  then show ?thesis by simp
qed

theorem extractPaths_success_no_errors_witness:
  "determineFileType ''json'' \<noteq> unknown
   \<and> er_success (extractPaths noExtractors 0 ''{}'' ''json'')
   \<and> er_errors (extractPaths noExtractors 0 ''{}'' ''json'') = []"
proof -
  have s: "determineFileType ''json'' \<noteq> unknown"
    by (simp add: determineFileType_def)
  show ?thesis
    using s extractPaths_success_no_errors [of noExtractors 0 "''{}''" "''json''"]
    by blast
qed

text \<open>
  C6, as stated, fails: the error that \<open>extractPaths\<close> returns for the unsupported
  identifier \<open>python\<close> has a recovery action that is none of \<open>skip\<close>, \<open>retry\<close>,
  \<open>abort\<close>, \<open>fallback\<close>.
\<close>

theorem unsupported_format_recoveryAction_counterexample:
  "pe_recoveryAction (hd (er_errors (extractPaths noExtractors 0 ''import os'' ''python'')))
     \<notin> {''skip'', ''retry'', ''abort'', ''fallback''}"
  by (simp add: extractPaths_def determineFileType_def buildUnsupportedFormatResult_def)

text \<open>
  C6, amended. The \<open>ParseError\<close> that \<open>extractPaths\<close> returns for an unsupported format
  has the recovery action \<open>none\<close>; every recovery action that
  \<open>determineRecoveryAction\<close> computes is one of \<open>skip\<close>, \<open>retry\<close>, \<open>abort\<close>,
  \<open>fallback\<close>, and the one of \<open>createParseError\<close> is \<open>skip\<close>.
\<close>

theorem recoveryAction_values:
  assumes "determineFileType languageId = unknown"
  shows "(\<exists>e. er_errors (extractPaths ex now content languageId) = [e]
            \<and> pe_recoveryAction e = ''none'')
    \<and> determineRecoveryAction category severity \<in> {skip, retry, abort, fallback}
    \<and> cp_recoveryAction (createParseError h props) = skip"
  using assms
  by (simp add: extractPaths_def buildUnsupportedFormatResult_def determineRecoveryAction_def
      createParseError_def)

theorem recoveryAction_values_witness:
  "determineFileType ''python'' = unknown
    \<and> (\<exists>e. er_errors (extractPaths noExtractors 0 ''import os'' ''python'') = [e]
            \<and> pe_recoveryAction e = ''none'')
    \<and> determineRecoveryAction file_system error \<in> {skip, retry, abort, fallback}"
proof -
  have u: "determineFileType ''python'' = unknown"
    by (simp add: determineFileType_def)
  show ?thesis
    using u recoveryAction_values [OF u, where ex = noExtractors and now = 0
        and content = "''import os''" and category = file_system and severity = error]
    by blast
qed

section \<open>The file-size threshold and the confirmation dialog\<close>

lemma buildFileSizeError_fields:
  "sr_proceed (buildFileSizeError h n t f) = False
   \<and> sr_warnings (buildFileSizeError h n t f) = []
   \<and> (\<exists>e. sr_error (buildFileSizeError h n t f) = Some e \<and> ee_category e = safety
         \<and> ee_severity e = high \<and> ee_recoverable e = False)"
  by (simp add: buildFileSizeError_def createEnhancedError_def Let_def)

lemma handleSafetyChecks_blocked:
  assumes "safetyEnabled config"
    and "js_greater (Num (real (length (getText document))))
       (fileSizeThreshold config options)"
  shows "handleSafetyChecks h document config options =
    buildFileSizeError h (length (getText document)) (fileSizeThreshold config options)
      (fileName document)"
  using assms by (simp add: handleSafetyChecks_def Let_def)

lemma handleSafetyChecks_passed:
  assumes "\<not> js_greater (Num (real (length (getText document))))
       (fileSizeThreshold config options)"
  shows "sr_proceed (handleSafetyChecks h document config options) = True"
  using assms by (simp add: handleSafetyChecks_def Let_def)

lemma defaultConfiguration_safetyEnabled: "safetyEnabled defaultConfiguration"
  by (simp add: defaultConfiguration_def getConfiguration_def readBoolean_def config_get_def)

lemma defaultConfiguration_fileSize:
  "safetyFileSizeWarnBytes defaultConfiguration = Num 1000000"
  by (simp add: defaultConfiguration_def getConfiguration_def readNumber_def config_get_def
      Math_max_def)

lemma sampleDocument_blocked:
  "js_greater (Num (real (length (getText sampleDocument))))
       (fileSizeThreshold defaultConfiguration overrideOptions)"
  by (simp add: sampleDocument_def fileSizeThreshold_def overrideOptions_def js_greater_def)

lemma sampleDocument_passes:
  "\<not> js_greater (Num (real (length (getText sampleDocument))))
       (fileSizeThreshold defaultConfiguration noOptions)"
  by (simp add: sampleDocument_def fileSizeThreshold_def noOptions_def
      defaultConfiguration_fileSize js_greater_def)

lemma accentedDocument_passes:
  "\<not> js_greater (Num (real (length (getText accentedDocument))))
       (fileSizeThreshold defaultConfiguration thresholdFive)"
  by (simp add: accentedDocument_def fileSizeThreshold_def thresholdFive_def js_greater_def)

text \<open>
  C2, as stated, fails. The content of four accented letters has four code units and
  eight bytes; with safety enabled and a file-size threshold of five, the byte length
  exceeds the threshold and \<open>handleSafetyChecks\<close> returns \<open>proceed\<close> true, without an
  error.
\<close>

theorem byte_length_over_threshold_counterexample:
  "safetyEnabled defaultConfiguration
   \<and> fileSizeThreshold defaultConfiguration thresholdFive = Num 5
   \<and> length (getText accentedDocument) = 4
   \<and> utf8ByteLength (getText accentedDocument) = 8
   \<and> js_greater (Num (real (utf8ByteLength (getText accentedDocument))))
        (fileSizeThreshold defaultConfiguration thresholdFive)
   \<and> sr_proceed (handleSafetyChecks plainHost accentedDocument defaultConfiguration
        thresholdFive) = True
   \<and> sr_error (handleSafetyChecks plainHost accentedDocument defaultConfiguration
        thresholdFive) = None"
proof -
  have t: "fileSizeThreshold defaultConfiguration thresholdFive = Num 5"
    by (simp add: fileSizeThreshold_def thresholdFive_def)
  have l: "length (getText accentedDocument) = 4"
    by (simp add: accentedDocument_def)
  have b: "utf8ByteLength (getText accentedDocument) = 8"
    by (simp add: accentedDocument_def utf8ByteLength_def)
  have g: "js_greater (Num (real (utf8ByteLength (getText accentedDocument))))
        (fileSizeThreshold defaultConfiguration thresholdFive)"
    by (simp add: b t js_greater_def)
  have p: "sr_proceed (handleSafetyChecks plainHost accentedDocument defaultConfiguration
        thresholdFive) = True"
    using accentedDocument_passes by (rule handleSafetyChecks_passed)
  have e: "sr_error (handleSafetyChecks plainHost accentedDocument defaultConfiguration
        thresholdFive) = None"
    using accentedDocument_passes by (simp add: handleSafetyChecks_def Let_def)
  from defaultConfiguration_safetyEnabled t l b g p e show ?thesis by simp
qed

text \<open>
  C2, amended. With safety enabled: when the length of the content in UTF-16 code units
  (\<open>content.length\<close>) exceeds the file-size threshold (the custom threshold when one is
  given, else the configured one), \<open>handleSafetyChecks\<close> returns \<open>proceed\<close> false
  together with an error of category \<open>safety\<close>, severity \<open>high\<close>, not recoverable;
  when it does not exceed the threshold, \<open>handleSafetyChecks\<close> returns \<open>proceed\<close>
  true.
\<close>

theorem handleSafetyChecks_file_size_threshold:
  assumes "safetyEnabled config"
  shows "(js_greater (Num (real (length (getText document))))
       (fileSizeThreshold config options) \<longrightarrow>
            sr_proceed (handleSafetyChecks h document config options) = False
            \<and> (\<exists>e. sr_error (handleSafetyChecks h document config options) = Some e
                  \<and> ee_category e = safety \<and> ee_severity e = high
                  \<and> ee_recoverable e = False))
    \<and> (\<not> js_greater (Num (real (length (getText document))))
       (fileSizeThreshold config options) \<longrightarrow>
            sr_proceed (handleSafetyChecks h document config options) = True)
    \<and> (\<forall>ct t. customThresholds options = Some ct \<longrightarrow> ct_fileSizeBytes ct = Some t \<longrightarrow>
            fileSizeThreshold config options = t)
    \<and> (customThresholds options = None \<longrightarrow>
            fileSizeThreshold config options = safetyFileSizeWarnBytes config)
    \<and> (\<forall>ct. customThresholds options = Some ct \<longrightarrow> ct_fileSizeBytes ct = None \<longrightarrow>
            fileSizeThreshold config options = safetyFileSizeWarnBytes config)"
proof (intro conjI)
  show "js_greater (Num (real (length (getText document))))
       (fileSizeThreshold config options) \<longrightarrow>
            sr_proceed (handleSafetyChecks h document config options) = False
            \<and> (\<exists>e. sr_error (handleSafetyChecks h document config options) = Some e
                  \<and> ee_category e = safety \<and> ee_severity e = high
                  \<and> ee_recoverable e = False)"
    using assms buildFileSizeError_fields by (simp add: handleSafetyChecks_blocked)
  show "\<not> js_greater (Num (real (length (getText document))))
       (fileSizeThreshold config options) \<longrightarrow>
            sr_proceed (handleSafetyChecks h document config options) = True"
    by (simp add: handleSafetyChecks_passed)
  show "\<forall>ct t. customThresholds options = Some ct \<longrightarrow> ct_fileSizeBytes ct = Some t \<longrightarrow>
            fileSizeThreshold config options = t"
    by (simp add: fileSizeThreshold_def)
  show "customThresholds options = None \<longrightarrow>
            fileSizeThreshold config options = safetyFileSizeWarnBytes config"
    by (simp add: fileSizeThreshold_def)
  show "\<forall>ct. customThresholds options = Some ct \<longrightarrow> ct_fileSizeBytes ct = None \<longrightarrow>
            fileSizeThreshold config options = safetyFileSizeWarnBytes config"
    by (simp add: fileSizeThreshold_def)
qed

theorem handleSafetyChecks_file_size_threshold_witness:
  "safetyEnabled defaultConfiguration
   \<and> js_greater (Num (real (length (getText sampleDocument))))
       (fileSizeThreshold defaultConfiguration overrideOptions)
   \<and> fileSizeThreshold defaultConfiguration overrideOptions = Num 3
   \<and> sr_proceed (handleSafetyChecks plainHost sampleDocument defaultConfiguration overrideOptions)
       = False
   \<and> (\<exists>e. sr_error (handleSafetyChecks plainHost sampleDocument defaultConfiguration
               overrideOptions) = Some e
         \<and> ee_category e = safety \<and> ee_severity e = high \<and> ee_recoverable e = False)
   \<and> \<not> js_greater (Num (real (length (getText sampleDocument))))
       (fileSizeThreshold defaultConfiguration noOptions)
   \<and> fileSizeThreshold defaultConfiguration noOptions = Num 1000000
   \<and> sr_proceed (handleSafetyChecks plainHost sampleDocument defaultConfiguration noOptions)
       = True"
proof -
  note g1 = handleSafetyChecks_file_size_threshold [OF defaultConfiguration_safetyEnabled,
      where document = sampleDocument and options = overrideOptions and h = plainHost]
  note g2 = handleSafetyChecks_file_size_threshold [OF defaultConfiguration_safetyEnabled,
      where document = sampleDocument and options = noOptions and h = plainHost]
  have c: "customThresholds overrideOptions
      = Some \<lparr>ct_fileSizeBytes = Some (Num 3), ct_lineCount = None, ct_pathCount = None\<rparr>"
    by (simp add: overrideOptions_def)
  have t1: "fileSizeThreshold defaultConfiguration overrideOptions = Num 3"
    using g1 c by simp
  have n: "customThresholds noOptions = None"
    by (simp add: noOptions_def)
  have t2: "fileSizeThreshold defaultConfiguration noOptions = Num 1000000"
    using g2 n defaultConfiguration_fileSize by simp
  show ?thesis
    using g1 g2 t1 t2 defaultConfiguration_safetyEnabled sampleDocument_blocked
      sampleDocument_passes
    by blast
qed

lemma firstCall_proceeds: "sr_proceed (fst firstCall) = True"
  using handleSafetyChecks_blocked [OF defaultConfiguration_safetyEnabled sampleDocument_blocked,
      of plainHost] buildFileSizeError_fields [of plainHost]
  by (simp add: firstCall_def handleSafetyChecksWithUserConfirmation_def Let_def
      promptUserOverride_def overrideOptions_def freshSession_def plainHost_def)

lemma firstCall_shown: "length (ui_shown (snd firstCall)) = 1 \<and> ui_answer (snd firstCall) = approveOnce"
  using handleSafetyChecks_blocked [OF defaultConfiguration_safetyEnabled sampleDocument_blocked,
      of plainHost] buildFileSizeError_fields [of plainHost]
  by (simp add: firstCall_def handleSafetyChecksWithUserConfirmation_def Let_def
      promptUserOverride_def overrideOptions_def freshSession_def plainHost_def)

lemma secondCall_blocked:
  "sr_proceed (fst secondCall) = False \<and> length (ui_shown (snd secondCall)) = 2"
  using handleSafetyChecks_blocked [OF defaultConfiguration_safetyEnabled sampleDocument_blocked,
      of plainHost] buildFileSizeError_fields [of plainHost] firstCall_proceeds firstCall_shown
  by (simp add: secondCall_def handleSafetyChecksWithUserConfirmation_def Let_def
      promptUserOverride_def overrideOptions_def plainHost_def)

text \<open>
  C3. Every result of \<open>handleSafetyChecks\<close> and of
  \<open>handleSafetyChecksWithUserConfirmation\<close> satisfies: \<open>proceed\<close> false implies that the
  error is set and that there are no warnings.
\<close>

theorem safetyResult_invariant:
  "(sr_proceed (handleSafetyChecks h document config options) = False \<longrightarrow>
      sr_error (handleSafetyChecks h document config options) \<noteq> None
      \<and> sr_warnings (handleSafetyChecks h document config options) = [])
   \<and> (sr_proceed (fst (handleSafetyChecksWithUserConfirmation h document config options ui))
        = False \<longrightarrow>
      sr_error (fst (handleSafetyChecksWithUserConfirmation h document config options ui))
        \<noteq> None
      \<and> sr_warnings (fst (handleSafetyChecksWithUserConfirmation h document config options ui))
        = [])"
proof -
  have a: "sr_proceed (handleSafetyChecks h document config options) = False \<longrightarrow>
      sr_error (handleSafetyChecks h document config options) \<noteq> None
      \<and> sr_warnings (handleSafetyChecks h document config options) = []"
    by (simp add: handleSafetyChecks_def buildFileSizeError_def Let_def)
  have b: "sr_proceed (fst (handleSafetyChecksWithUserConfirmation h document config options ui))
        = False \<longrightarrow>
      sr_error (fst (handleSafetyChecksWithUserConfirmation h document config options ui))
        \<noteq> None
      \<and> sr_warnings (fst (handleSafetyChecksWithUserConfirmation h document config options ui))
        = []"
    using a by (simp add: handleSafetyChecksWithUserConfirmation_def Let_def)
  from a b show ?thesis by blast
qed

theorem safetyResult_invariant_witness:
  "sr_proceed (handleSafetyChecks plainHost sampleDocument defaultConfiguration overrideOptions)
     = False
   \<and> sr_error (handleSafetyChecks plainHost sampleDocument defaultConfiguration overrideOptions)
     \<noteq> None
   \<and> sr_warnings (handleSafetyChecks plainHost sampleDocument defaultConfiguration
        overrideOptions) = []
   \<and> sr_proceed (fst secondCall) = False
   \<and> sr_error (fst secondCall) \<noteq> None
   \<and> sr_warnings (fst secondCall) = []"
proof -
  have p: "sr_proceed (handleSafetyChecks plainHost sampleDocument defaultConfiguration
      overrideOptions) = False"
    using handleSafetyChecks_blocked [OF defaultConfiguration_safetyEnabled
        sampleDocument_blocked, of plainHost] buildFileSizeError_fields [of plainHost]
    by simp
  show ?thesis
    using p secondCall_blocked
      safetyResult_invariant [where h = plainHost and document = sampleDocument
        and config = defaultConfiguration and options = overrideOptions
        and ui = "snd firstCall"]
    by (simp add: secondCall_def)
qed

text \<open>
  C5, as stated, fails. The document is blocked and the override is allowed; the user
  approves the override in the first call, which returns \<open>proceed\<close> true after one
  dialog. The second call on the same document shows a second dialog, and returns
  \<open>proceed\<close> false because the user picks \<open>Cancel\<close> there.
\<close>

theorem override_not_recorded_counterexample:
  "sr_proceed (fst firstCall) = True
   \<and> sr_proceed (fst secondCall) = False
   \<and> length (ui_shown (snd firstCall)) = 1
   \<and> length (ui_shown (snd secondCall)) = 2"
  using firstCall_proceeds firstCall_shown secondCall_blocked by simp

text \<open>
  C5, amended. For every document whose safety check blocks, with the override allowed,
  every call of \<open>handleSafetyChecksWithUserConfirmation\<close> shows the dialog once, with
  the message of the blocking result, and returns \<open>proceed\<close> true exactly when the user
  picks \<open>Continue Anyway\<close> in that dialog; the call records nothing else.
\<close>

theorem confirmation_prompts_every_call:
  assumes "safetyEnabled config"
    and "js_greater (Num (real (length (getText document))))
       (fileSizeThreshold config options)"
    and "allowOverride options = Some True"
  shows "ui_shown (snd (handleSafetyChecksWithUserConfirmation h document config options ui))
      = ui_shown ui @ [sr_message (handleSafetyChecks h document config options)]
    \<and> ui_answer (snd (handleSafetyChecksWithUserConfirmation h document config options ui))
      = ui_answer ui
    \<and> sr_proceed (fst (handleSafetyChecksWithUserConfirmation h document config options ui))
      = (ui_answer ui (length (ui_shown ui))
          = Some (localize h ''runtime.safety.override.continue'' ''Continue Anyway'' []))"
  using handleSafetyChecks_blocked [OF assms(1) assms(2), of h] buildFileSizeError_fields [of h]
    assms(3)
  by (simp add: handleSafetyChecksWithUserConfirmation_def Let_def promptUserOverride_def)

theorem confirmation_prompts_every_call_witness:
  "safetyEnabled defaultConfiguration
   \<and> js_greater (Num (real (length (getText sampleDocument))))
       (fileSizeThreshold defaultConfiguration overrideOptions)
   \<and> allowOverride overrideOptions = Some True
   \<and> ui_shown (snd firstCall)
       = [sr_message (handleSafetyChecks plainHost sampleDocument defaultConfiguration
            overrideOptions)]
   \<and> ui_answer (snd firstCall) = approveOnce
   \<and> sr_proceed (fst firstCall) = True"
proof -
  have a: "allowOverride overrideOptions = Some True"
    by (simp add: overrideOptions_def)
  show ?thesis
    using a defaultConfiguration_safetyEnabled sampleDocument_blocked
      confirmation_prompts_every_call [OF defaultConfiguration_safetyEnabled
        sampleDocument_blocked a, of plainHost freshSession]
    by (simp add: firstCall_def freshSession_def plainHost_def)
qed

section \<open>Configuration: the floors of the numeric thresholds\<close>

lemma readNumber_configured:
  "config key = Some (JNum v) \<Longrightarrow> readNumber config key d m = Num (max v m)"
  by (simp add: readNumber_def config_get_def Math_max_def max_def)

lemma readNumber_unset:
  "config key = None \<Longrightarrow> readNumber config key d m = Num (max d m)"
  by (simp add: readNumber_def config_get_def Math_max_def max_def)

text \<open>
  For each of the eight numeric threshold keys and every number \<open>v\<close> stored for it,
  the value that \<open>getConfiguration\<close> returns is the maximum of \<open>v\<close> and the floor of
  the key.
\<close>

lemma getConfiguration_numeric_thresholds:
  "(config ''safety.fileSizeWarnBytes'' = Some (JNum v) \<longrightarrow>
      safetyFileSizeWarnBytes (getConfiguration config) = Num (max v 1000))
   \<and> (config ''safety.largeOutputLinesThreshold'' = Some (JNum v) \<longrightarrow>
      safetyLargeOutputLinesThreshold (getConfiguration config) = Num (max v 100))
   \<and> (config ''safety.manyDocumentsThreshold'' = Some (JNum v) \<longrightarrow>
      safetyManyDocumentsThreshold (getConfiguration config) = Num (max v 1))
   \<and> (config ''performance.maxDuration'' = Some (JNum v) \<longrightarrow>
      performanceMaxDuration (getConfiguration config) = Num (max v 1000))
   \<and> (config ''performance.maxMemoryUsage'' = Some (JNum v) \<longrightarrow>
      performanceMaxMemoryUsage (getConfiguration config) = Num (max v 1048576))
   \<and> (config ''performance.maxCpuUsage'' = Some (JNum v) \<longrightarrow>
      performanceMaxCpuUsage (getConfiguration config) = Num (max v 100000))
   \<and> (config ''performance.minThroughput'' = Some (JNum v) \<longrightarrow>
      performanceMinThroughput (getConfiguration config) = Num (max v 100))
   \<and> (config ''performance.maxCacheSize'' = Some (JNum v) \<longrightarrow>
      performanceMaxCacheSize (getConfiguration config) = Num (max v 100))"
  by (intro conjI impI) (simp_all add: getConfiguration_def readNumber_configured)

text \<open>
  A threshold that is \<open>NaN\<close> blocks no document: with safety enabled and no custom
  threshold, \<open>handleSafetyChecks\<close> returns \<open>proceed\<close> true whatever the content.
\<close>

lemma handleSafetyChecks_NaN_threshold:
  assumes "safetyFileSizeWarnBytes config = NaN" and "customThresholds options = None"
  shows "sr_proceed (handleSafetyChecks h document config options) = True"
proof -
  have "fileSizeThreshold config options = NaN"
    using assms by (simp add: fileSizeThreshold_def)
  then have "\<not> js_greater (Num (real (length (getText document))))
       (fileSizeThreshold config options)"
    by (simp add: js_greater_def)
  then show ?thesis by (rule handleSafetyChecks_passed)
qed

text \<open>
  C7 fails on the code for a stored value that \<open>Number\<close> does not convert to a number.
  With the string \<open>abc\<close> stored for \<open>safety.fileSizeWarnBytes\<close>, \<open>Number\<close> yields
  \<open>NaN\<close>, \<open>Math.max(1000, NaN)\<close> is \<open>NaN\<close>, and the value that \<open>getConfiguration\<close>
  returns is \<open>NaN\<close>: it is not the maximum of a value and the floor, and it is not
  greater than or equal to the floor 1000. For the stored number 10 the floor is
  enforced.
\<close>

theorem getConfiguration_text_setting:
  "textSettings ''safety.fileSizeWarnBytes'' = Some (JStr ''abc'')
   \<and> Number (JStr ''abc'') = NaN
   \<and> safetyFileSizeWarnBytes (getConfiguration textSettings) = NaN
   \<and> js_greater_eq (safetyFileSizeWarnBytes (getConfiguration textSettings)) (Num 1000)
       = False
   \<and> safetyFileSizeWarnBytes (getConfiguration lowSettings) = Num 1000
   \<and> js_greater_eq (safetyFileSizeWarnBytes (getConfiguration lowSettings)) (Num 1000)
       = True"
proof -
  have k: "textSettings ''safety.fileSizeWarnBytes'' = Some (JStr ''abc'')"
    by (simp add: textSettings_def)
  have n: "Number (JStr ''abc'') = NaN"
    by (simp add: StringToNumber_def trimSpace_def isSpace_def nonDecimalLiteral_def
        unsignedDecimalLiteral_def exponentPart_def isDigitOf_def digitValue_def)
  have r: "safetyFileSizeWarnBytes (getConfiguration textSettings) = NaN"
    using k n by (simp add: getConfiguration_def readNumber_def config_get_def Math_max_def)
  have l: "safetyFileSizeWarnBytes (getConfiguration lowSettings) = Num 1000"
    by (simp add: getConfiguration_def readNumber_configured lowSettings_def)
  from k n r l show ?thesis
    by (simp add: js_greater_eq_def)
qed

section \<open>Batch resolution keeps the input order\<close>

lemma finishAt_length: "length (fulfilled (finishAt rs config pathList b i)) = length (fulfilled b)"
  by (simp add: finishAt_def Let_def)

lemma finishAt_keeps:
  "fulfilled b ! j = Some x \<Longrightarrow> fulfilled (finishAt rs config pathList b i) ! j = Some x"
  by (cases "i = j") (auto simp add: finishAt_def Let_def)

lemma finishAt_sets:
  assumes "i < length pathList" and "length (fulfilled b) = length pathList"
    and "fulfilled b ! i = None \<or> fulfilled b ! i = Some (resolveOne rs config (path_value (pathList ! i)))"
  shows "fulfilled (finishAt rs config pathList b i) ! i
    = Some (resolveOne rs config (path_value (pathList ! i)))"
  using assms by (auto simp add: finishAt_def Let_def)

lemma finishAt_sound:
  assumes "j < length pathList" and "length (fulfilled b) = length pathList"
    and "fulfilled b ! j = None \<or> fulfilled b ! j = Some (resolveOne rs config (path_value (pathList ! j)))"
  shows "fulfilled (finishAt rs config pathList b i) ! j = None
    \<or> fulfilled (finishAt rs config pathList b i) ! j
       = Some (resolveOne rs config (path_value (pathList ! j)))"
  using assms by (cases "i = j") (auto simp add: finishAt_def Let_def)

lemma batchSound_finishAt:
  "batchSound rs config pathList b \<Longrightarrow> batchSound rs config pathList (finishAt rs config pathList b i)"
  unfolding batchSound_def list_all_iff
  using finishAt_sound [of _ pathList b rs config i] finishAt_length [of rs config pathList b i]
  by auto

lemma foldl_finishAt_sound:
  "batchSound rs config pathList b \<Longrightarrow>
   batchSound rs config pathList (foldl (finishAt rs config pathList) b schedule)"
  by (induction schedule arbitrary: b) (auto simp add: batchSound_finishAt)

lemma foldl_finishAt_keeps:
  "fulfilled b ! j = Some x \<Longrightarrow>
   fulfilled (foldl (finishAt rs config pathList) b schedule) ! j = Some x"
  by (induction schedule arbitrary: b) (auto simp add: finishAt_keeps)

lemma foldl_finishAt_sets:
  assumes "batchSound rs config pathList b" and "j \<in> set schedule" and "j < length pathList"
  shows "fulfilled (foldl (finishAt rs config pathList) b schedule) ! j
    = Some (resolveOne rs config (path_value (pathList ! j)))"
  using assms
proof (induction schedule arbitrary: b)
  case Nil
  then show ?case by simp
next
  case (Cons i rest)
  have sound: "batchSound rs config pathList (finishAt rs config pathList b i)"
    using Cons.prems(1) by (rule batchSound_finishAt)
  show ?case
  proof (cases "i = j")
    case True
    have "fulfilled (finishAt rs config pathList b j) ! j
        = Some (resolveOne rs config (path_value (pathList ! j)))"
      using Cons.prems(1) Cons.prems(3)
      by (intro finishAt_sets) (auto simp add: batchSound_def list_all_iff)
    then show ?thesis
      using True by (simp add: foldl_finishAt_keeps)
  next
    case False
    then have "j \<in> set rest"
      using Cons.prems(2) by simp
    then show ?thesis
      using Cons.IH [OF sound _ Cons.prems(3)] by simp
  qed
qed

lemma those_map_Some: "those (map Some xs) = Some xs"
  by (induction xs) auto

lemma runBatch_fulfilled:
  assumes "set [0..<length pathList] \<subseteq> set schedule"
  shows "fulfilled (runBatch rs config pathList schedule)
    = map Some (map (\<lambda>p. resolveOne rs config (path_value p)) pathList)"
proof (rule nth_equalityI)
  have start: "batchSound rs config pathList
      \<lparr>resolvedCount = 0, fallbackCount = 0, fulfilled = replicate (length pathList) None\<rparr>"
    by (simp add: batchSound_def list_all_iff)
  have sound: "batchSound rs config pathList (runBatch rs config pathList schedule)"
    unfolding runBatch_def using start by (rule foldl_finishAt_sound)
  then show len: "length (fulfilled (runBatch rs config pathList schedule))
      = length (map Some (map (\<lambda>p. resolveOne rs config (path_value p)) pathList))"
    by (simp add: batchSound_def)
  fix j
  assume "j < length (fulfilled (runBatch rs config pathList schedule))"
  then have j: "j < length pathList"
    using len by simp
  then have "j \<in> set schedule"
    using assms by auto
  then show "fulfilled (runBatch rs config pathList schedule) ! j
      = map Some (map (\<lambda>p. resolveOne rs config (path_value p)) pathList) ! j"
    unfolding runBatch_def using foldl_finishAt_sets [OF start _ j] j by simp
qed

text \<open>
  C8. For every list of input paths, with canonical resolution enabled, and for every
  order in which the concurrent resolutions finish (every schedule in which each
  position of the input occurs), \<open>resolvePathsIfNeeded\<close> returns, and returns a list of
  the length of the input whose element at every index \<open>i\<close> is the resolution of the
  input path at index \<open>i\<close>.
\<close>

theorem resolvePathsIfNeeded_keeps_order:
  assumes "set [0..<length pathList] \<subseteq> set schedule"
  shows "\<exists>formattedPaths bar.
      resolvePathsIfNeeded rs pathList config True schedule statusBar
        = Some (formattedPaths, bar)
      \<and> length formattedPaths = length pathList
      \<and> (\<forall>i<length pathList.
            formattedPaths ! i = resolveOne rs config (path_value (pathList ! i)))"
proof -
  have "those (fulfilled (runBatch rs config pathList schedule))
      = Some (map (\<lambda>p. resolveOne rs config (path_value p)) pathList)"
    unfolding runBatch_fulfilled [OF assms] by (rule those_map_Some)
  then show ?thesis
    by (simp add: resolvePathsIfNeeded_def Let_def)
qed

theorem resolvePathsIfNeeded_keeps_order_witness:
  "set [0..<length samplePaths] \<subseteq> set [2, 0, 1]
   \<and> map_option fst
        (resolvePathsIfNeeded sampleResolver samplePaths defaultConfiguration True [2, 0, 1] [])
      = Some [''/ws/a'', ''/ws/b'', ''/ws/c'']"
proof -
  have s: "set [0..<length samplePaths] \<subseteq> set [2, 0, 1]"
    by (auto simp add: samplePaths_def)
  obtain formattedPaths bar where
    r: "resolvePathsIfNeeded sampleResolver samplePaths defaultConfiguration True [2, 0, 1] []
        = Some (formattedPaths, bar)"
    and l: "length formattedPaths = length samplePaths"
    and e: "\<forall>i<length samplePaths. formattedPaths ! i
        = resolveOne sampleResolver defaultConfiguration (path_value (samplePaths ! i))"
    using resolvePathsIfNeeded_keeps_order [OF s, of sampleResolver defaultConfiguration "[]"]
    by blast
  have "formattedPaths = [''/ws/a'', ''/ws/b'', ''/ws/c'']"
  proof (rule nth_equalityI)
    show "length formattedPaths = length [''/ws/a'', ''/ws/b'', ''/ws/c'']"
      using l by (simp add: samplePaths_def)
    fix i
    assume "i < length formattedPaths"
    then have "i < 3"
      using l by (simp add: samplePaths_def)
    then have "i = 0 \<or> i = 1 \<or> i = 2"
      by auto
    then show "formattedPaths ! i = [''/ws/a'', ''/ws/b'', ''/ws/c''] ! i"
      using e by (auto simp add: samplePaths_def resolveOne_def sampleResolver_def)
  qed
  with r s show ?thesis by simp
qed

section \<open>Logging and sanitization\<close>

text \<open>
  \<open>handleError\<close> writes the sanitized user-friendly message, with \<open>console.warn\<close> for
  a recoverable error and with \<open>console.error\<close> otherwise.
\<close>

lemma handleError_sanitizes:
  "handleError err con =
     con @ [(if ee_recoverable err then console_warn else console_error,
             ''[Paths-LE] '' @ sanitizeErrorMessage (ee_userFriendlyMessage err))]"
  by (simp add: handleError_def Let_def)

text \<open>
  For every host and every error, the first line that \<open>logError\<close> of the logger
  appends to the output channel ends with \<open>error.message\<close> as it is.
\<close>

lemma logError_first_line:
  "hd (logger_logError (createErrorLogger h appendToChannel) err [])
     = ''['' @ toISOString h (dateNow h) @ ''] [ERROR] '' @ categoryString (ee_category err)
         @ '': '' @ ee_message err"
  by (simp add: createErrorLogger_def appendToChannel_def Let_def split: option.split)

text \<open>
  C4 fails on the logger. For an error with the message \<open>token=abc123\<close>, \<open>logError\<close>
  appends the message to the output channel unchanged, where \<open>sanitizeErrorMessage\<close>
  would have turned it into \<open>token=***\<close>. Moreover \<open>sanitizeErrorMessage\<close> does not
  remove every user directory segment: in \<open>/home/a/home/b/\<close> the second segment starts
  with the slash that ends the first match, and \<open>/home/b/\<close> stays in the result.
\<close>

theorem logError_writes_unsanitized_message:
  "logger_logError (createErrorLogger plainHost appendToChannel)
       (createEnhancedError plainHost (newError plainHost ''token=abc123'') operational None None)
       []
     = [''[1970-01-01T00:00:00.000Z] [ERROR] operational: token=abc123'']
   \<and> sanitizeErrorMessage ''token=abc123'' = ''token=***''
   \<and> sanitizeErrorMessage ''/home/a/home/b/'' = ''/home/***/home/b/''"
proof (intro conjI)
  show "logger_logError (createErrorLogger plainHost appendToChannel)
       (createEnhancedError plainHost (newError plainHost ''token=abc123'') operational None None)
       []
     = [''[1970-01-01T00:00:00.000Z] [ERROR] operational: token=abc123'']"
    by (simp add: createErrorLogger_def appendToChannel_def createEnhancedError_def newError_def
        plainHost_def Let_def)
  show "sanitizeErrorMessage ''token=abc123'' = ''token=***''"
    by (simp add: sanitizeErrorMessage_def matchSegment_def matchAssignment_def isSpace_def
        lowerCode_def backslash_def)
  show "sanitizeErrorMessage ''/home/a/home/b/'' = ''/home/***/home/b/''"
    by (simp add: sanitizeErrorMessage_def matchSegment_def matchAssignment_def isSpace_def
        lowerCode_def backslash_def)
qed

end
